theory Spec2Isabelle
  imports
    Complex_Main
    "HOL-Library.AList"
    "HOL-Library.Char_ord"
    "HOL-Library.List_Lexorder"
    "HOL-Library.Log_Nat"
    "HOL-Library.Option_ord"
    "HOL-Library.Product_Lexorder"
begin

section \<open>Python values used by \<open>app/statsimpact/routes.py\<close>\<close>

text \<open>
  Strings are HOL strings. \<open>isspace\<close> lists the code points below 256 that Python's
  \<open>str.isspace\<close> accepts; \<open>str.strip()\<close> removes them from both ends.
\<close>

definition isspace :: "char \<Rightarrow> bool" where
  "isspace c = (c \<in> set [CHR 0x09, CHR 0x0A, CHR 0x0B, CHR 0x0C, CHR 0x0D,
                          CHR 0x1C, CHR 0x1D, CHR 0x1E, CHR 0x1F, CHR 0x20,
                          CHR 0x85, CHR 0xA0])"

definition strip :: "string \<Rightarrow> string" where
  "strip s = rev (dropWhile isspace (rev (dropWhile isspace s)))"

text \<open>\<open>x or ""\<close> for an optional string: \<open>None\<close> and \<open>""\<close> both give \<open>""\<close>.\<close>

definition or_empty :: "string option \<Rightarrow> string" where
  "or_empty x = (case x of None \<Rightarrow> [] | Some s \<Rightarrow> s)"

text \<open>\<open>s or None\<close> for a string: the empty string is falsy.\<close>

definition or_none :: "string \<Rightarrow> string option" where
  "or_none s = (if s = [] then None else Some s)"

text \<open>Truthiness of an optional string: \<open>None\<close> and \<open>""\<close> are falsy.\<close>

definition truthy :: "string option \<Rightarrow> bool" where
  "truthy x = (case x of None \<Rightarrow> False | Some s \<Rightarrow> s \<noteq> [])"

text \<open>
  A \<open>datetime.date\<close> is the triple (year, month, day); Python compares dates in that
  lexicographic order, which is the order of the product type.
\<close>

type_synonym date = "int \<times> int \<times> int"

definition year :: "date \<Rightarrow> int" where
  "year d = fst d"

text \<open>
  \<open>int(s)\<close> on a string raises \<open>ValueError\<close> when \<open>s\<close> is not a decimal literal. It skips
  white space at both ends, but not the same characters as \<open>str.strip\<close>: the separators
  U+001C to U+001F are not skipped (\<open>int('3\\x1f')\<close> raises).
\<close>

datatype py_error = ValueError

definition int_space :: "char \<Rightarrow> bool" where
  "int_space c = (c \<in> set [CHR 0x09, CHR 0x0A, CHR 0x0B, CHR 0x0C, CHR 0x0D, CHR 0x20,
                            CHR 0x85, CHR 0xA0])"

definition int_strip :: "string \<Rightarrow> string" where
  "int_strip s = rev (dropWhile int_space (rev (dropWhile int_space s)))"

definition isdigit :: "char \<Rightarrow> bool" where
  "isdigit c = (c \<in> set ''0123456789'')"

definition digit_val :: "char \<Rightarrow> int" where
  "digit_val c = int (of_char c) - 48"

text \<open>
  The body of a decimal literal after the sign: digits, with single underscores allowed
  between two digits.
\<close>

fun literal_body :: "string \<Rightarrow> bool" where
  "literal_body [] = False"
| "literal_body [c] = isdigit c"
| "literal_body (c # d # cs) =
     (isdigit c \<and> (if d = CHR ''_'' then literal_body cs else literal_body (d # cs)))"

definition decimal_value :: "string \<Rightarrow> int" where
  "decimal_value body = foldl (\<lambda>acc c. acc * 10 + digit_val c) 0 (filter isdigit body)"

text \<open>
  CPython (3.11 and later) refuses a decimal string of more than 4300 digits with
  \<open>ValueError\<close> as well.
\<close>

definition max_str_digits :: nat where
  "max_str_digits = 4300"

definition py_int :: "string \<Rightarrow> py_error + int" where
  "py_int s =
     (let t = int_strip s;
          neg = (t \<noteq> [] \<and> hd t = CHR ''-'');
          body = (if t \<noteq> [] \<and> (hd t = CHR ''-'' \<or> hd t = CHR ''+'') then tl t else t)
      in if literal_body body \<and> length (filter isdigit body) \<le> max_str_digits
         then Inr (if neg then - decimal_value body else decimal_value body)
         else Inl ValueError)"

section \<open>Callers, filters and the sector scope\<close>

text \<open>
  The caller is \<open>current_user\<close> together with the permission predicate \<open>can\<close> of
  \<open>app.rbac\<close>; \<open>getattr(current_user, "secteur_assigne", None)\<close> is the optional field.
\<close>

record caller =
  can :: "string \<Rightarrow> bool"
  secteur_assigne :: "string option"

text \<open>
  Modelled from the spec: the filter object returned by \<open>normalize_filters\<close> of the engine
  module, which is not among the sources. Only the fields that \<open>routes.py\<close> reads or writes
  are kept.
\<close>

record filters =
  date_from :: "date option"
  date_to :: "date option"
  secteur :: "string option"
  atelier_id :: "int option"

text \<open>\<open>_can_view\<close>\<close>

definition can_view :: "caller \<Rightarrow> bool" where
  "can_view u = (can u ''statsimpact:view'' \<or> can u ''statsimpact:view_all'')"

text \<open>\<open>_pedago_scope_secteur\<close>\<close>

definition pedago_scope_secteur :: "caller \<Rightarrow> string option" where
  "pedago_scope_secteur u =
     (if can u ''scope:all_secteurs'' then None
      else or_none (strip (or_empty (secteur_assigne u))))"

text \<open>
  The first lines of \<open>_build_magato_per_atelier_workbook\<close>: the effective sector.
  \<open>a or b\<close> keeps \<open>a\<close> when it is a non-empty string and gives \<open>b\<close> otherwise.
\<close>

definition eff_secteur :: "caller \<Rightarrow> filters \<Rightarrow> string option" where
  "eff_secteur u flt =
     (if \<not> can u ''scope:all_secteurs''
      then (let a = strip (or_empty (secteur_assigne u))
            in if a \<noteq> [] then Some a else secteur flt)
      else secteur flt)"

section \<open>Size caps of the spreadsheet export and of the dashboard\<close>

text \<open>
  \<open>try: v = int(request.args.get(key) or default) except Exception: v = default\<close>.
  \<open>request.args.get\<close> gives \<open>None\<close> or a string; \<open>None\<close> and \<open>""\<close> select the default,
  which \<open>int\<close> returns unchanged.
\<close>

definition int_arg :: "(string \<rightharpoonup> string) \<Rightarrow> string \<Rightarrow> int \<Rightarrow> int" where
  "int_arg args key dflt =
     (case args key of
        None \<Rightarrow> dflt
      | Some s \<Rightarrow>
          if s = [] then dflt
          else (case py_int s of Inl e \<Rightarrow> dflt | Inr v \<Rightarrow> v))"

text \<open>\<open>magatomatique_export\<close>: \<open>max(5, min(max_sessions, 400))\<close> and its sibling.\<close>

definition export_max_sessions :: "(string \<rightharpoonup> string) \<Rightarrow> int" where
  "export_max_sessions args = max 5 (min (int_arg args ''max_sessions'' 40) 400)"

definition export_max_participants :: "(string \<rightharpoonup> string) \<Rightarrow> int" where
  "export_max_participants args = max 20 (min (int_arg args ''max_participants'' 250) 5000)"

text \<open>\<open>dashboard\<close>: the same parsing with the bounds 200 and 1000.\<close>

definition dashboard_max_sessions :: "(string \<rightharpoonup> string) \<Rightarrow> int" where
  "dashboard_max_sessions args = max 5 (min (int_arg args ''max_sessions'' 40) 200)"

definition dashboard_max_participants :: "(string \<rightharpoonup> string) \<Rightarrow> int" where
  "dashboard_max_participants args = max 20 (min (int_arg args ''max_participants'' 250) 1000)"

section \<open>The dashboard's default period\<close>

text \<open>
  \<open>dashboard\<close>, after \<open>normalize_filters\<close>: a filter without any date gets the calendar
  year of \<open>date.today()\<close>. A date object is always truthy, so \<open>not flt.date_from\<close> is
  \<open>date_from = None\<close>.
\<close>

definition dashboard_flt :: "date \<Rightarrow> filters \<Rightarrow> filters" where
  "dashboard_flt today flt =
     (if date_from flt = None \<and> date_to flt = None
      then flt\<lparr>date_from := Some (year today, 1, 1), date_to := Some (year today, 12, 31)\<rparr>
      else flt)"

text \<open>
  Every statistic of the page (\<open>compute_participants_stats\<close>, \<open>compute_volume_activity_stats\<close>
  and the others, all of the engine module) is called on that filter; \<open>compute\<close> stands for
  any of them.
\<close>

definition dashboard_stats :: "(filters \<Rightarrow> 'a) \<Rightarrow> date \<Rightarrow> filters \<Rightarrow> 'a" where
  "dashboard_stats compute today flt = compute (dashboard_flt today flt)"

section \<open>The relational source\<close>

text \<open>
  The model classes come from \<open>app.models\<close>; each table is the list of its rows, with the
  columns that \<open>routes.py\<close> reads. A nullable column is an option.
\<close>

record participant =
  pa_id :: int
  pa_nom :: "string option"
  pa_prenom :: "string option"

record atelier_activite =
  a_id :: int
  a_secteur :: "string option"
  a_nom :: "string option"
  a_is_deleted :: bool

record session_activite =
  s_id :: int
  s_atelier_id :: int
  s_secteur :: "string option"
  s_rdv_date :: "date option"
  s_date_session :: "date option"

record presence_activite =
  pr_id :: int
  pr_participant_id :: "int option"
  pr_session_id :: "int option"
  pr_signature_path :: "string option"

record evaluation =
  e_id :: int
  e_session_id :: "int option"
  e_participant_id :: "int option"
  e_competence_id :: int
  e_etat :: int

record database =
  participants :: "participant list"
  ateliers :: "atelier_activite list"
  sessions :: "session_activite list"
  presences :: "presence_activite list"
  evaluations :: "evaluation list"

text \<open>\<open>coalesce(rdv_date, date_session)\<close>, also written \<open>s.rdv_date or s.date_session\<close>.\<close>

definition session_date :: "session_activite \<Rightarrow> date option" where
  "session_date s = (case s_rdv_date s of Some d \<Rightarrow> Some d | None \<Rightarrow> s_date_session s)"

section \<open>The per-atelier workbook\<close>

text \<open>
  A row of the sheet \<open>Synthese\<close> below its two title lines, with the columns
  Secteur, Atelier, Nb sessions, Nb presences, Participants uniques, Nouveaux, Recurrents.
\<close>

record summary_row =
  r_secteur :: "string option"
  r_atelier :: "string option"
  nb_sessions :: nat
  nb_presences :: nat
  nb_participants_uniques :: nat
  nouveaux :: nat
  recurrents :: nat

text \<open>
  A sheet of one atelier: its title, the pair (secteur, nom) printed in the first line,
  the dates of the session columns (\<open>None\<close> prints \<open>Sans date\<close>) that follow the two
  columns Nom and Prenom, and the participant rows, which are lists of cell texts.
\<close>

record sheet =
  sh_title :: string
  sh_heading :: "string option \<times> string option"
  sh_headers :: "date option list"
  sh_rows :: "string list list"

record workbook =
  synthese :: "summary_row list"
  sheets :: "sheet list"

text \<open>An f-string prints \<open>None\<close> as the text \<open>None\<close>.\<close>

definition fstr :: "string option \<Rightarrow> string" where
  "fstr x = (case x of None \<Rightarrow> ''None'' | Some s \<Rightarrow> s)"

text \<open>\<open>_safe_sheet_title\<close> with its default fallback \<open>Atelier\<close>.\<close>

definition safe_sheet_title :: "string \<Rightarrow> string" where
  "safe_sheet_title name0 =
     (let fallback = ''Atelier'';
          name = (if name0 = [] then fallback else name0);
          cleaned = strip (filter (\<lambda>c. c \<notin> set [CHR ''['', CHR '']'', CHR '':'', CHR ''*'',
                                              CHR ''?'', CHR ''/'', CHR 0x5C]) name)
      in if cleaned \<noteq> [] then take 31 cleaned else fallback)"

text \<open>
  The ateliers in scope: not deleted, of the effective sector when it is a non-empty string,
  by sector and name. The order of equal keys and of \<open>NULL\<close> is the database's; here
  \<open>None\<close> comes first and strings compare by code point.
\<close>

definition scope_ateliers :: "caller \<Rightarrow> database \<Rightarrow> filters \<Rightarrow> atelier_activite list" where
  "scope_ateliers u db flt =
     (let es = eff_secteur u flt
      in sort_key (\<lambda>a. (a_secteur a, a_nom a))
           (filter (\<lambda>a. \<not> a_is_deleted a \<and> (if truthy es then a_secteur a = es else True))
              (ateliers db)))"

text \<open>A bound of the period that is set excludes the sessions without a date.\<close>

definition in_period :: "filters \<Rightarrow> session_activite \<Rightarrow> bool" where
  "in_period flt s =
     ((case date_from flt of None \<Rightarrow> True
       | Some f \<Rightarrow> (case session_date s of None \<Rightarrow> False | Some d \<Rightarrow> f \<le> d)) \<and>
      (case date_to flt of None \<Rightarrow> True
       | Some t \<Rightarrow> (case session_date s of None \<Rightarrow> False | Some d \<Rightarrow> d \<le> t)))"

definition atelier_sessions ::
  "database \<Rightarrow> filters \<Rightarrow> atelier_activite \<Rightarrow> session_activite list" where
  "atelier_sessions db flt atel =
     sort_key (\<lambda>s. (session_date s, s_id s))
       (filter (\<lambda>s. s_atelier_id s = a_id atel \<and> in_period flt s) (sessions db))"

text \<open>\<open>pres_rows\<close>: the pairs (participant id, session id) of the presences of these sessions.\<close>

definition pres_rows :: "database \<Rightarrow> int list \<Rightarrow> (int option \<times> int option) list" where
  "pres_rows db session_ids =
     map (\<lambda>pr. (pr_participant_id pr, pr_session_id pr))
       (filter (\<lambda>pr. case pr_session_id pr of None \<Rightarrow> False | Some i \<Rightarrow> i \<in> set session_ids)
          (presences db))"

definition pid_set :: "(int option \<times> int option) list \<Rightarrow> int list" where
  "pid_set rows = sort (remdups (List.map_filter fst rows))"

definition parts :: "database \<Rightarrow> int list \<Rightarrow> participant list" where
  "parts db pids =
     sort_key (\<lambda>p. (pa_nom p, pa_prenom p)) (filter (\<lambda>p. pa_id p \<in> set pids) (participants db))"

text \<open>\<open>MIN\<close> over a column skips \<open>NULL\<close> and is \<open>NULL\<close> when nothing is left.\<close>

fun min_date :: "date option list \<Rightarrow> date option" where
  "min_date [] = None"
| "min_date (x # xs) =
     (case x of
        None \<Rightarrow> min_date xs
      | Some d \<Rightarrow> (case min_date xs of None \<Rightarrow> Some d | Some m \<Rightarrow> Some (min d m)))"

text \<open>
  The query \<open>counts\<close>: presences joined with their session, kept when the session is one of
  \<open>session_ids\<close>, grouped by participant; \<open>c_map\<close> gives, for a participant id, the number
  of rows of its group and the earliest session date, and nothing when the group is empty.
\<close>

definition counts_join ::
  "database \<Rightarrow> int list \<Rightarrow> (presence_activite \<times> session_activite) list" where
  "counts_join db session_ids =
     concat (map (\<lambda>pr. map (\<lambda>s. (pr, s))
                    (filter (\<lambda>s. pr_session_id pr = Some (s_id s) \<and> s_id s \<in> set session_ids)
                       (sessions db)))
               (presences db))"

definition c_map :: "database \<Rightarrow> int list \<Rightarrow> int \<Rightarrow> (nat \<times> date option) option" where
  "c_map db session_ids pid =
     (let grp = filter (\<lambda>(pr, s). pr_participant_id pr = Some pid) (counts_join db session_ids)
      in if grp = [] then None
         else Some (length grp, min_date (map (\<lambda>(pr, s). session_date s) grp)))"

text \<open>One turn of the loop over \<open>pid_set\<close>; the state is (new_count, recurring).\<close>

definition kpi_step ::
  "database \<Rightarrow> filters \<Rightarrow> int list \<Rightarrow> int \<Rightarrow> nat \<times> nat \<Rightarrow> nat \<times> nat" where
  "kpi_step db flt session_ids pid acc =
     (let nb = (case c_map db session_ids pid of None \<Rightarrow> 0 | Some (n, f) \<Rightarrow> n);
          fd = (case c_map db session_ids pid of None \<Rightarrow> None | Some (n, f) \<Rightarrow> f);
          recurring = (if nb \<ge> 2 then snd acc + 1 else snd acc);
          new_count =
            (case (fd, date_from flt, date_to flt) of
               (Some d, Some f, Some t) \<Rightarrow> if f \<le> d \<and> d \<le> t then fst acc + 1 else fst acc
             | _ \<Rightarrow> fst acc)
      in (new_count, recurring))"

definition kpi :: "database \<Rightarrow> filters \<Rightarrow> int list \<Rightarrow> int list \<Rightarrow> nat \<times> nat" where
  "kpi db flt session_ids pids = fold (kpi_step db flt session_ids) pids (0, 0)"

text \<open>
  \<open>sid_index\<close> is a dict from session id to column offset, in insertion order; a key set
  twice keeps its place and takes the later value.
\<close>

definition sid_index :: "session_activite list \<Rightarrow> (int \<times> nat) list" where
  "sid_index ss = fold (\<lambda>(idx, s) m. AList.update (s_id s) idx m) (enumerate 0 ss) []"

definition present :: "(int option \<times> int option) list \<Rightarrow> (int \<times> int) set" where
  "present rows =
     set (List.map_filter
            (\<lambda>(p, s). case p of None \<Rightarrow> None
                      | Some a \<Rightarrow> (case s of None \<Rightarrow> None | Some b \<Rightarrow> Some (a, b))) rows)"

definition matrix_row ::
  "session_activite list \<Rightarrow> (int \<times> int) set \<Rightarrow> participant \<Rightarrow> string list" where
  "matrix_row ss pres p =
     fold (\<lambda>(sid, idx) row. if (pa_id p, sid) \<in> pres then row[2 + idx := ''1''] else row)
       (sid_index ss)
       ([or_empty (pa_nom p), or_empty (pa_prenom p)] @ replicate (length ss) [])"

definition make_row :: "atelier_activite \<Rightarrow> nat \<Rightarrow> nat \<Rightarrow> nat \<Rightarrow> nat \<Rightarrow> nat \<Rightarrow> summary_row" where
  "make_row atel n_sess n_pres n_uniq n_new n_rec =
     \<lparr>r_secteur = a_secteur atel, r_atelier = a_nom atel, nb_sessions = n_sess,
      nb_presences = n_pres, nb_participants_uniques = n_uniq, nouveaux = n_new,
      recurrents = n_rec\<rparr>"

definition make_sheet ::
  "atelier_activite \<Rightarrow> session_activite list \<Rightarrow> string list list \<Rightarrow> sheet" where
  "make_sheet atel ss rows =
     \<lparr>sh_title = safe_sheet_title (fstr (a_nom atel)), sh_heading = (a_secteur atel, a_nom atel),
      sh_headers = map session_date ss, sh_rows = rows\<rparr>"

text \<open>The body of the loop over the ateliers: the summary row and the sheet, if any.\<close>

definition export_atelier ::
  "database \<Rightarrow> filters \<Rightarrow> atelier_activite \<Rightarrow> summary_row \<times> sheet option" where
  "export_atelier db flt atel =
     (let ss = atelier_sessions db flt atel
      in if ss = [] then (make_row atel 0 0 0 0 0, None)
         else
           (let session_ids = map s_id ss;
                rows = pres_rows db session_ids
            in if rows = [] then (make_row atel (length ss) 0 0 0 0, Some (make_sheet atel ss []))
               else
                 (let pids = pid_set rows;
                      k = kpi db flt session_ids pids
                  in (make_row atel (length ss) (length rows) (length pids) (fst k) (snd k),
                      Some (make_sheet atel ss
                              (map (matrix_row ss (present rows)) (parts db pids)))))))"

text \<open>\<open>_build_magato_per_atelier_workbook\<close>\<close>

definition build_magato_per_atelier_workbook ::
  "caller \<Rightarrow> database \<Rightarrow> filters \<Rightarrow> workbook" where
  "build_magato_per_atelier_workbook u db flt =
     (let exports = map (export_atelier db flt) (scope_ateliers u db flt)
      in \<lparr>synthese = map fst exports, sheets = List.map_filter snd exports\<rparr>)"

section \<open>Deleting a participant from the dashboard\<close>

text \<open>
  The state that the action can change: the database and the signature files on disk.
\<close>

record state =
  st_db :: database
  st_files :: "string set"

text \<open>
  The messages given to \<open>flash\<close>: \<open>Suppression refusee : ce participant a des emargements
  dans d'autres secteurs.\<close> (danger), \<open>Participant supprime definitivement.\<close> (success) and
  \<open>Impossible de supprimer ce participant.\<close> (danger).
\<close>

datatype flash = Suppression_refusee | Participant_supprime | Impossible_de_supprimer

text \<open>\<open>abort(code)\<close>, or the redirection to the participants tab after a flash message.\<close>

datatype response = Abort nat | Redirect flash

text \<open>\<open>user_secteur\<close>\<close>

definition user_secteur :: "caller \<Rightarrow> string" where
  "user_secteur u = strip (or_empty (secteur_assigne u))"

text \<open>
  The query of the sector check: the sectors of the sessions joined to the presences of the
  participant, without duplicates.
\<close>

definition presence_sectors :: "database \<Rightarrow> int \<Rightarrow> string option list" where
  "presence_sectors db pid =
     remdups (concat (map (\<lambda>pr. map s_secteur
                             (filter (\<lambda>s. pr_session_id pr = Some (s_id s)) (sessions db)))
                        (filter (\<lambda>pr. pr_participant_id pr = Some pid) (presences db))))"

text \<open>\<open>{s[0] for s in sectors if s and s[0]}\<close>\<close>

definition sectors_of :: "database \<Rightarrow> int \<Rightarrow> string set" where
  "sectors_of db pid = set (map or_empty (filter truthy (presence_sectors db pid)))"

text \<open>\<open>int(request.form.get("participant_id", "0"))\<close>, 0 when it raises.\<close>

definition form_participant_id :: "(string \<rightharpoonup> string) \<Rightarrow> int" where
  "form_participant_id form =
     (case py_int (case form ''participant_id'' of None \<Rightarrow> ''0'' | Some s \<Rightarrow> s) of
        Inl e \<Rightarrow> 0
      | Inr v \<Rightarrow> v)"

text \<open>
  The deletion itself: the signature files of the participant's presences are removed,
  then the presences and the participant. \<open>commit_ok\<close> tells whether the transaction
  commits; when it does not, the database is rolled back and the files stay removed.
\<close>

definition purge :: "bool \<Rightarrow> int \<Rightarrow> state \<Rightarrow> response \<times> state" where
  "purge commit_ok pid st =
     (let db = st_db st;
          prs = filter (\<lambda>pr. pr_participant_id pr = Some pid) (presences db);
          files = st_files st - set (map or_empty (filter truthy (map pr_signature_path prs)));
          db' = db\<lparr>presences := filter (\<lambda>pr. pr_participant_id pr \<noteq> Some pid) (presences db),
                   participants := filter (\<lambda>p. pa_id p \<noteq> pid) (participants db)\<rparr>
      in if commit_ok then (Redirect Participant_supprime, \<lparr>st_db = db', st_files = files\<rparr>)
         else (Redirect Impossible_de_supprimer, \<lparr>st_db = db, st_files = files\<rparr>))"

text \<open>
  \<open>dashboard\<close> on a POST whose \<open>action\<close> is \<open>delete_participant\<close>. \<open>allowed_ids\<close> are the
  ids of the participants that the engine's \<open>compute_participants_stats\<close> returned for the
  filter.
\<close>

definition delete_participant ::
  "caller \<Rightarrow> int list \<Rightarrow> bool \<Rightarrow> (string \<rightharpoonup> string) \<Rightarrow> state \<Rightarrow> response \<times> state" where
  "delete_participant u allowed_ids commit_ok form st =
     (if \<not> can_view u then (Abort 403, st)
      else
        (let participant_id = form_participant_id form
         in if participant_id = 0 \<or> participant_id \<notin> set allowed_ids then (Abort 403, st)
            else
              (case find (\<lambda>p. pa_id p = participant_id) (participants (st_db st)) of
                 None \<Rightarrow> (Abort 404, st)
               | Some participant \<Rightarrow>
                   if \<not> can u ''participants:view_all'' \<and>
                      sectors_of (st_db st) participant_id \<noteq> {} \<and>
                      sectors_of (st_db st) participant_id \<noteq> {user_secteur u}
                   then (Redirect Suppression_refusee, st)
                   else purge commit_ok participant_id st)))"

section \<open>Objective roll-up\<close>

text \<open>
  Python's \<open>float\<close> is the IEEE 754 double. A double is a rational, and an operation gives
  the double nearest to the exact result, the one with an even significand on a tie.
  \<open>round_quotient p q\<close> is the double nearest to \<open>p / q\<close> for \<open>q > 0\<close>: \<open>binade\<close> is the
  exponent \<open>e\<close> with \<open>2 ^ e \<le> p / q < 2 ^ (e + 1)\<close>, the significand has 53 bits, and below
  \<open>2 ^ - 1022\<close> the spacing stays \<open>2 ^ - 1074\<close>. Overflow is left out: the values here do
  not exceed 100.
\<close>

definition round_half_even :: "int \<Rightarrow> int \<Rightarrow> int" where
  "round_half_even a b =
     (let n = a div b; r = a mod b
      in if 2 * r < b then n
         else if b < 2 * r then n + 1
         else if even n then n else n + 1)"

definition binade :: "int \<Rightarrow> int \<Rightarrow> int" where
  "binade p q =
     (let d = bitlen p - bitlen q
      in if (if 0 \<le> d then 2 ^ nat d * q \<le> p else q \<le> 2 ^ nat (- d) * p) then d else d - 1)"

definition round_quotient :: "int \<Rightarrow> int \<Rightarrow> rat" where
  "round_quotient p q =
     (if p = 0 then 0
      else
        (let a = \<bar>p\<bar>;
             k = max (binade a q) (- 1022) - 52;
             n = (if 0 \<le> k then round_half_even a (q * 2 ^ nat k)
                  else round_half_even (a * 2 ^ nat (- k)) q);
             v = (if 0 \<le> k then of_int n * 2 ^ nat k else of_int n / 2 ^ nat (- k))
         in if p < 0 then - v else v))"

definition fl :: "rat \<Rightarrow> rat" where
  "fl x = (case quotient_of x of (p, q) \<Rightarrow> round_quotient p q)"

text \<open>\<open>a / b\<close> on two integers, \<open>b\<close> not 0, and \<open>x * y\<close> on floats.\<close>

definition true_div :: "nat \<Rightarrow> nat \<Rightarrow> rat" where
  "true_div a b = fl (of_nat a / of_nat b)"

definition float_mul :: "rat \<Rightarrow> rat \<Rightarrow> rat" where
  "float_mul x y = fl (x * y)"

text \<open>
  \<open>Competence\<close> and \<open>Objectif\<close> of \<open>app.models\<close>. The children of an objective are a list, so
  the objectives form a finite tree. A ratio is 0 or a float; the threshold is a number of
  the database, compared by its value.
\<close>

datatype competence = Competence (c_id: int)

datatype objectif =
  Objectif (o_type: string) (o_session_id: "int option") (o_competences: "competence list")
    (o_seuil_validation: "rat option") (o_enfants: "objectif list")

record rate =
  rt_total :: nat
  rt_success :: nat
  rt_ratio :: rat

record objective_result =
  ratio :: rat
  validated :: bool
  total :: nat
  success :: nat

text \<open>
  The number of distinct evaluation rows of the session and the participant, for one of the
  competencies, in state 2 or more.
\<close>

definition evals_count :: "database \<Rightarrow> int \<Rightarrow> int list \<Rightarrow> int option \<Rightarrow> nat" where
  "evals_count db session_id comp_ids participant_id =
     length (remdups (filter (\<lambda>e. e_session_id e = Some session_id \<and>
                                  e_participant_id e = participant_id \<and>
                                  e_competence_id e \<in> set comp_ids \<and> e_etat e \<ge> 2)
                        (evaluations db)))"

text \<open>\<open>_participants_success_rate\<close>\<close>

definition participants_success_rate :: "database \<Rightarrow> int \<Rightarrow> competence list \<Rightarrow> rate" where
  "participants_success_rate db session_id competences =
     (if competences = [] then \<lparr>rt_total = 0, rt_success = 0, rt_ratio = 0\<rparr>
      else
        (let prs = filter (\<lambda>pr. pr_session_id pr = Some session_id) (presences db);
             total = length prs
         in if total = 0 then \<lparr>rt_total = 0, rt_success = 0, rt_ratio = 0\<rparr>
            else
              (let comp_ids = map c_id competences;
                   success_count =
                     length (filter (\<lambda>pr. evals_count db session_id comp_ids (pr_participant_id pr)
                                           = length comp_ids) prs);
                   ratio = (if total \<noteq> 0 then float_mul (true_div success_count total) 100 else 0)
               in \<lparr>rt_total = total, rt_success = success_count, rt_ratio = ratio\<rparr>)))"

text \<open>\<open>obj.seuil_validation or 0\<close>\<close>

definition seuil :: "rat option \<Rightarrow> rat" where
  "seuil x = (case x of None \<Rightarrow> 0 | Some t \<Rightarrow> t)"

text \<open>
  \<open>obj.type == "operationnel" and obj.session_id\<close>: the session of an objective that takes
  the operational branch. The id 0 is falsy, as \<open>None\<close> is.
\<close>

definition op_session :: "string \<Rightarrow> int option \<Rightarrow> int option" where
  "op_session ty sid = (if ty = ''operationnel'' \<and> sid \<noteq> Some 0 then sid else None)"

text \<open>\<open>_objective_success\<close>\<close>

fun objective_success :: "database \<Rightarrow> objectif \<Rightarrow> objective_result" where
  "objective_success db (Objectif ty sid competences sv enfants) =
     (case op_session ty sid of
        Some session_id \<Rightarrow>
          (let stats = participants_success_rate db session_id competences
           in \<lparr>ratio = rt_ratio stats, validated = (rt_ratio stats \<ge> seuil sv),
               total = rt_total stats, success = rt_success stats\<rparr>)
      | None \<Rightarrow>
          if enfants = [] then \<lparr>ratio = 0, validated = False, total = 0, success = 0\<rparr>
          else
            (let results = map (objective_success db) enfants;
                 total = length results;
                 success = length (filter validated results);
                 ratio = (if total \<noteq> 0 then float_mul (true_div success total) 100 else 0)
             in \<lparr>ratio = ratio, validated = (ratio \<ge> seuil sv), total = total,
                 success = success\<rparr>))"

section \<open>The capped attendance matrix of the flat export\<close>

text \<open>
  Modelled from the spec: the sessions in scope for \<open>compute_magatomatique\<close> of the engine
  module, which is not among the sources. They are the sessions whose workshop is not
  soft-deleted, whose effective date falls within the period, and whose workshop sector is
  the effective sector when one is set.
\<close>

definition scoped_sessions :: "database \<Rightarrow> filters \<Rightarrow> string option \<Rightarrow> session_activite list" where
  "scoped_sessions db flt eff =
     filter (\<lambda>s. in_period flt s \<and>
                 list_ex (\<lambda>a. a_id a = s_atelier_id s \<and> \<not> a_is_deleted a \<and>
                               (if truthy eff then a_secteur a = eff else True))
                   (ateliers db))
       (sessions db)"

text \<open>
  Modelled from the spec: at most \<open>max_sessions\<close> sessions, the most recent first, ties
  broken by session id ascending.
\<close>

definition bounded_sessions ::
  "database \<Rightarrow> filters \<Rightarrow> string option \<Rightarrow> int \<Rightarrow> session_activite list" where
  "bounded_sessions db flt eff max_sessions =
     take (nat max_sessions)
       (rev (sort_key (\<lambda>s. (session_date s, - s_id s)) (scoped_sessions db flt eff)))"

text \<open>
  Modelled from the spec: at most \<open>max_participants\<close> participants with a presence in scope,
  ordered by name.
\<close>

definition bounded_participants ::
  "database \<Rightarrow> filters \<Rightarrow> string option \<Rightarrow> int \<Rightarrow> participant list" where
  "bounded_participants db flt eff max_participants =
     take (nat max_participants)
       (sort_key (\<lambda>p. (pa_nom p, pa_prenom p))
          (filter (\<lambda>p. list_ex (\<lambda>pr. pr_participant_id pr = Some (pa_id p) \<and>
                                      list_ex (\<lambda>s. pr_session_id pr = Some (s_id s))
                                        (scoped_sessions db flt eff))
                          (presences db))
             (participants db)))"

text \<open>
  Modelled from the spec: for every (participant, session) pair of the bounded sets, the
  matrix records presence or absence as a boolean.
\<close>

definition magato_matrix ::
  "database \<Rightarrow> participant list \<Rightarrow> session_activite list \<Rightarrow> (int \<times> int) \<rightharpoonup> bool" where
  "magato_matrix db ps ss =
     map_of (concat (map (\<lambda>p. map (\<lambda>s. ((pa_id p, s_id s),
                                           list_ex (\<lambda>pr. pr_participant_id pr = Some (pa_id p) \<and>
                                                         pr_session_id pr = Some (s_id s))
                                             (presences db))) ss) ps))"

text \<open>
  The part of the result of \<open>compute_magatomatique\<close> that the sheet \<open>Matrice\<close> reads: the
  keys \<open>view\<close>, \<open>sessions\<close>, \<open>participants\<close> and \<open>matrix\<close>.
\<close>

record magato =
  mg_view :: string
  mg_sessions :: "session_activite list"
  mg_participants :: "participant list"
  mg_matrix :: "(int \<times> int) \<rightharpoonup> bool"

text \<open>
  Modelled from the spec: \<open>compute_magatomatique\<close> for a result that is not restricted. The
  view is \<open>matrix\<close> or, for anything else, \<open>macro\<close>, which has no matrix.
\<close>

definition compute_magatomatique ::
  "database \<Rightarrow> filters \<Rightarrow> string option \<Rightarrow> string \<Rightarrow> int \<Rightarrow> int \<Rightarrow> magato" where
  "compute_magatomatique db flt eff view max_sessions max_participants =
     (if view = ''matrix''
      then (let ss = bounded_sessions db flt eff max_sessions;
                ps = bounded_participants db flt eff max_participants
            in \<lparr>mg_view = ''matrix'', mg_sessions = ss, mg_participants = ps,
                mg_matrix = magato_matrix db ps ss\<rparr>)
      else \<lparr>mg_view = ''macro'', mg_sessions = [],
            mg_participants = bounded_participants db flt eff max_participants,
            mg_matrix = Map.empty\<rparr>)"

text \<open>
  \<open>magatomatique_export\<close>, the sheet \<open>Matrice\<close>: it exists for the view \<open>matrix\<close> with
  sessions and participants; a row holds the name and first name of a participant and, for
  each session, \<open>1\<close> when \<open>matrix.get((pid, sid))\<close> is true and the empty text otherwise.
\<close>

definition matrice_sheet ::
  "magato \<Rightarrow> ((string option \<times> string option) \<times> string list) list option" where
  "matrice_sheet mg =
     (if mg_view mg = ''matrix'' \<and> mg_sessions mg \<noteq> [] \<and> mg_participants mg \<noteq> []
      then Some (map (\<lambda>p. ((pa_nom p, pa_prenom p),
                            map (\<lambda>s. if mg_matrix mg (pa_id p, s_id s) = Some True then ''1'' else [])
                              (mg_sessions mg)))
                   (mg_participants mg))
      else None)"

section \<open>Properties in the words of the specification\<close>

text \<open>
  A validated evaluation of a participant in a session: state 2 or more.
\<close>

definition validation :: "database \<Rightarrow> int \<Rightarrow> int option \<Rightarrow> evaluation \<Rightarrow> bool" where
  "validation db session_id participant_id e =
     (e_session_id e = Some session_id \<and> e_participant_id e = participant_id \<and> e_etat e \<ge> 2)"

text \<open>The participant has a validated evaluation for every competency of the list.\<close>

definition validated_all :: "database \<Rightarrow> int \<Rightarrow> int list \<Rightarrow> int option \<Rightarrow> bool" where
  "validated_all db session_id comp_ids participant_id =
     list_all (\<lambda>c. list_ex (\<lambda>e. validation db session_id participant_id e \<and> e_competence_id e = c)
                      (evaluations db)) comp_ids"

text \<open>
  The participants among the presences of the session who have a validated evaluation for
  every competency of the list, each of them once.
\<close>

definition validated_participants :: "database \<Rightarrow> int \<Rightarrow> int list \<Rightarrow> int option list" where
  "validated_participants db session_id comp_ids =
     remdups (map pr_participant_id
                (filter (\<lambda>pr. validated_all db session_id comp_ids (pr_participant_id pr))
                   (filter (\<lambda>pr. pr_session_id pr = Some session_id) (presences db))))"

text \<open>
  At most one validated evaluation row for a session, a participant and a competency.
\<close>

definition one_validation_each :: "database \<Rightarrow> bool" where
  "one_validation_each db =
     list_all (\<lambda>e1. list_all (\<lambda>e2.
         if e_session_id e1 = e_session_id e2 \<and> e_participant_id e1 = e_participant_id e2 \<and>
            e_competence_id e1 = e_competence_id e2 \<and> e_etat e1 \<ge> 2 \<and> e_etat e2 \<ge> 2
         then e1 = e2 else True) (evaluations db)) (evaluations db)"

text \<open>
  The presences of a participant in an atelier over all its sessions, whatever their date,
  each with the date of its session.
\<close>

definition history :: "database \<Rightarrow> atelier_activite \<Rightarrow> int \<Rightarrow> date option list" where
  "history db atel pid =
     concat (map (\<lambda>pr. map session_date
                    (filter (\<lambda>s. pr_session_id pr = Some (s_id s) \<and> s_atelier_id s = a_id atel)
                       (sessions db)))
               (filter (\<lambda>pr. pr_participant_id pr = Some pid) (presences db)))"

text \<open>Recurring, as the specification words it: two presences or more in the whole history.\<close>

definition spec_recurring :: "database \<Rightarrow> atelier_activite \<Rightarrow> int \<Rightarrow> bool" where
  "spec_recurring db atel pid = (length (history db atel pid) \<ge> 2)"

text \<open>
  New, as the specification words it: the first presence of the whole history lies in the
  filtered period.
\<close>

definition spec_new :: "database \<Rightarrow> filters \<Rightarrow> atelier_activite \<Rightarrow> int \<Rightarrow> bool" where
  "spec_new db flt atel pid =
     (case min_date (history db atel pid) of
        None \<Rightarrow> False
      | Some d \<Rightarrow>
          (case date_from flt of None \<Rightarrow> True | Some f \<Rightarrow> f \<le> d) \<and>
          (case date_to flt of None \<Rightarrow> True | Some t \<Rightarrow> d \<le> t))"


text \<open>
  The sectors in which a participant has presences, the sector being the non-empty value
  recorded on the session itself.
\<close>

definition session_sectors :: "database \<Rightarrow> int \<Rightarrow> string set" where
  "session_sectors db pid =
     {sec. sec \<noteq> [] \<and>
           (\<exists>pr\<in>set (presences db). \<exists>s\<in>set (sessions db).
              pr_participant_id pr = Some pid \<and> pr_session_id pr = Some (s_id s) \<and>
              s_secteur s = Some sec)}"

section \<open>Example data\<close>

text \<open>
  Atelier A (sector Nord) has two sessions in 2024 and one in 2023; atelier B (sector Sud)
  has one session in 2023, which carries no sector of its own. Xavier came twice in 2024,
  Yvon once in 2023 and once in 2024, Zoe once to the session of B.
\<close>

definition ex_atelier_a :: atelier_activite where
  "ex_atelier_a = \<lparr>a_id = 1, a_secteur = Some ''Nord'', a_nom = Some ''A'', a_is_deleted = False\<rparr>"

definition ex_atelier_b :: atelier_activite where
  "ex_atelier_b = \<lparr>a_id = 2, a_secteur = Some ''Sud'', a_nom = Some ''B'', a_is_deleted = False\<rparr>"

definition ex_db :: database where
  "ex_db =
     \<lparr>participants =
        [\<lparr>pa_id = 1, pa_nom = Some ''Xavier'', pa_prenom = Some ''X''\<rparr>,
         \<lparr>pa_id = 2, pa_nom = Some ''Yvon'', pa_prenom = None\<rparr>,
         \<lparr>pa_id = 3, pa_nom = Some ''Zoe'', pa_prenom = None\<rparr>],
      ateliers = [ex_atelier_a, ex_atelier_b],
      sessions =
        [\<lparr>s_id = 1, s_atelier_id = 1, s_secteur = Some ''Nord'', s_rdv_date = None,
          s_date_session = Some (2024, 1, 5)\<rparr>,
         \<lparr>s_id = 2, s_atelier_id = 1, s_secteur = Some ''Nord'', s_rdv_date = Some (2024, 2, 10),
          s_date_session = None\<rparr>,
         \<lparr>s_id = 3, s_atelier_id = 1, s_secteur = Some ''Nord'', s_rdv_date = None,
          s_date_session = Some (2023, 6, 1)\<rparr>,
         \<lparr>s_id = 4, s_atelier_id = 2, s_secteur = None, s_rdv_date = None,
          s_date_session = Some (2023, 3, 1)\<rparr>],
      presences =
        [\<lparr>pr_id = 1, pr_participant_id = Some 1, pr_session_id = Some 1, pr_signature_path = None\<rparr>,
         \<lparr>pr_id = 2, pr_participant_id = Some 1, pr_session_id = Some 2, pr_signature_path = None\<rparr>,
         \<lparr>pr_id = 3, pr_participant_id = Some 2, pr_session_id = Some 1, pr_signature_path = None\<rparr>,
         \<lparr>pr_id = 4, pr_participant_id = Some 2, pr_session_id = Some 3, pr_signature_path = None\<rparr>,
         \<lparr>pr_id = 5, pr_participant_id = Some 3, pr_session_id = Some 4,
          pr_signature_path = Some ''sig5.png''\<rparr>],
      evaluations =
        [\<lparr>e_id = 1, e_session_id = Some 1, e_participant_id = Some 1, e_competence_id = 10,
          e_etat = 2\<rparr>,
         \<lparr>e_id = 2, e_session_id = Some 1, e_participant_id = Some 1, e_competence_id = 11,
          e_etat = 3\<rparr>,
         \<lparr>e_id = 3, e_session_id = Some 1, e_participant_id = Some 2, e_competence_id = 10,
          e_etat = 2\<rparr>,
         \<lparr>e_id = 4, e_session_id = Some 1, e_participant_id = Some 2, e_competence_id = 11,
          e_etat = 1\<rparr>]\<rparr>"

text \<open>The same source where Yvon's validation of competency 10 is recorded twice.\<close>

definition ex_db_twice :: database where
  "ex_db_twice =
     ex_db\<lparr>evaluations :=
       [\<lparr>e_id = 3, e_session_id = Some 1, e_participant_id = Some 2, e_competence_id = 10,
         e_etat = 2\<rparr>,
        \<lparr>e_id = 5, e_session_id = Some 1, e_participant_id = Some 2, e_competence_id = 10,
         e_etat = 2\<rparr>]\<rparr>"

text \<open>The same source where Xavier's presence at session 1 is recorded twice.\<close>

definition ex_db_double :: database where
  "ex_db_double =
     ex_db\<lparr>presences :=
       presences ex_db @
       [\<lparr>pr_id = 6, pr_participant_id = Some 1, pr_session_id = Some 1, pr_signature_path = None\<rparr>]\<rparr>"

text \<open>
  A source with fifty presences at session 1, of the participants 1 to 50; the participants
  1 to 29 have validated competency 10.
\<close>

definition ex_db_fifty :: database where
  "ex_db_fifty =
     \<lparr>participants = [], ateliers = [], sessions = [],
      presences =
        map (\<lambda>i. \<lparr>pr_id = i, pr_participant_id = Some i, pr_session_id = Some 1,
                   pr_signature_path = None\<rparr>) [1..50],
      evaluations =
        map (\<lambda>i. \<lparr>e_id = i, e_session_id = Some 1, e_participant_id = Some i,
                   e_competence_id = 10, e_etat = 2\<rparr>) [1..29]\<rparr>"

definition ex_state :: state where
  "ex_state = \<lparr>st_db = ex_db, st_files = {''sig5.png''}\<rparr>"

text \<open>The year 2024, with a requested sector.\<close>

definition ex_flt :: "string option \<Rightarrow> filters" where
  "ex_flt requested =
     \<lparr>date_from = Some (2024, 1, 1), date_to = Some (2024, 12, 31), secteur = requested,
      atelier_id = None\<rparr>"

definition ex_flt_undated :: filters where
  "ex_flt_undated = \<lparr>date_from = None, date_to = None, secteur = None, atelier_id = None\<rparr>"

text \<open>A caller who may view the statistics and nothing more, with an assigned sector.\<close>

definition ex_user :: "string option \<Rightarrow> caller" where
  "ex_user assigned = \<lparr>can = (\<lambda>c. c = ''statsimpact:view''), secteur_assigne = assigned\<rparr>"

definition ex_form :: "string \<Rightarrow> (string \<rightharpoonup> string)" where
  "ex_form pid = map_of [(''participant_id'', pid)]"

text \<open>The arguments \<open>max_sessions='12\\x1f'\<close> and \<open>max_participants='99999'\<close>.\<close>

definition ex_args :: "string \<rightharpoonup> string" where
  "ex_args = map_of [(''max_sessions'', [CHR ''1'', CHR ''2'', CHR 0x1F]),
                     (''max_participants'', ''99999'')]"

definition ex_sheet_a :: sheet where
  "ex_sheet_a =
     \<lparr>sh_title = ''A'', sh_heading = (Some ''Nord'', Some ''A''),
      sh_headers = [Some (2024, 1, 5), Some (2024, 2, 10)],
      sh_rows = [[''Xavier'', ''X'', ''1'', ''1''], [''Yvon'', [], ''1'', []]]\<rparr>"

text \<open>
  An operational objective on session 1 with two competencies, the same without any
  competency, a composite objective over the two, and one without children.
\<close>

definition ex_operationnel :: objectif where
  "ex_operationnel =
     Objectif ''operationnel'' (Some 1) [Competence 10, Competence 11] (Some 50) []"

definition ex_sans_competence :: objectif where
  "ex_sans_competence = Objectif ''operationnel'' (Some 1) [] (Some 50) []"

definition ex_specifique :: objectif where
  "ex_specifique = Objectif ''specifique'' None [] (Some 50) [ex_operationnel, ex_sans_competence]"

definition ex_sans_enfant :: objectif where
  "ex_sans_enfant = Objectif ''general'' None [] None []"

text \<open>
  An operational objective on competency 10 with the threshold 58, and a composite objective
  with the threshold 58 and fifty children, 29 of which are validated.
\<close>

definition ex_seuil_58 :: objectif where
  "ex_seuil_58 = Objectif ''operationnel'' (Some 1) [Competence 10] (Some 58) []"

definition ex_cinquante :: objectif where
  "ex_cinquante =
     Objectif ''general'' None [] (Some 58)
       (replicate 29 ex_operationnel @ replicate 21 ex_sans_competence)"

section \<open>The sector scope of the per-atelier export\<close>

lemma in_period_secteur: "in_period (flt\<lparr>secteur := x\<rparr>) = in_period flt"
  by (rule ext) (simp add: in_period_def)

lemma atelier_sessions_secteur:
  "atelier_sessions db (flt\<lparr>secteur := x\<rparr>) = atelier_sessions db flt"
  by (rule ext) (simp add: atelier_sessions_def in_period_secteur)

lemma kpi_step_secteur: "kpi_step db (flt\<lparr>secteur := x\<rparr>) = kpi_step db flt"
  by (intro ext) (simp add: kpi_step_def)

lemma kpi_secteur: "kpi db (flt\<lparr>secteur := x\<rparr>) = kpi db flt"
  by (intro ext) (simp add: kpi_def kpi_step_secteur)

lemma export_atelier_secteur: "export_atelier db (flt\<lparr>secteur := x\<rparr>) = export_atelier db flt"
  by (rule ext) (simp add: export_atelier_def atelier_sessions_secteur kpi_secteur Let_def)

lemma eff_secteur_restricted:
  "\<not> can u ''scope:all_secteurs'' \<Longrightarrow> strip (or_empty (secteur_assigne u)) \<noteq> [] \<Longrightarrow>
   eff_secteur u flt = Some (strip (or_empty (secteur_assigne u)))"
  by (simp add: eff_secteur_def Let_def)

lemma scope_ateliers_restricted:
  assumes "\<not> can u ''scope:all_secteurs''" and "strip (or_empty (secteur_assigne u)) \<noteq> []"
  shows "scope_ateliers u db flt =
           sort_key (\<lambda>a. (a_secteur a, a_nom a))
             (filter (\<lambda>atel. \<not> a_is_deleted atel \<and>
                              a_secteur atel = Some (strip (or_empty (secteur_assigne u))))
                (ateliers db))"
  using assms by (simp add: scope_ateliers_def eff_secteur_restricted truthy_def)

lemma scope_ateliers_all_secteurs:
  assumes "can u' ''scope:all_secteurs''" and "a \<noteq> []"
  shows "scope_ateliers u' db (flt\<lparr>secteur := Some a\<rparr>) =
           sort_key (\<lambda>a. (a_secteur a, a_nom a))
             (filter (\<lambda>atel. \<not> a_is_deleted atel \<and> a_secteur atel = Some a) (ateliers db))"
  using assms by (simp add: scope_ateliers_def eff_secteur_def truthy_def)

lemma export_row_secteur: "r_secteur (fst (export_atelier db flt atel)) = a_secteur atel"
  by (simp add: export_atelier_def Let_def make_row_def)

lemma export_sheet_secteur:
  "snd (export_atelier db flt atel) = Some sh \<Longrightarrow> fst (sh_heading sh) = a_secteur atel"
  by (auto simp: export_atelier_def Let_def make_sheet_def split: if_splits)

text \<open>
  Claim C1, as amended. For a caller without \<open>scope:all_secteurs\<close> whose assigned sector is
  not empty once the surrounding white space is stripped, the effective sector is the
  stripped assigned sector whatever sector is requested, \<open>_pedago_scope_secteur\<close> gives the
  same sector, and the workbook does not depend on the requested sector. The workbook is
  scoped to that sector: its ateliers are the ateliers of the source that are not deleted
  and belong to the sector, one summary row each, every summary row and every sheet carries
  the sector, and the workbook is the one that a caller with \<open>scope:all_secteurs\<close> gets when
  requesting the sector.
\<close>

theorem restricted_scope_overrides_request:
  assumes "\<not> can u ''scope:all_secteurs''" and "strip (or_empty (secteur_assigne u)) \<noteq> []"
  shows "let a = strip (or_empty (secteur_assigne u));
             wb = build_magato_per_atelier_workbook u db (flt\<lparr>secteur := requested\<rparr>)
         in eff_secteur u (flt\<lparr>secteur := requested\<rparr>) = Some a \<and>
            pedago_scope_secteur u = Some a \<and>
            wb = build_magato_per_atelier_workbook u db flt \<and>
            set (scope_ateliers u db (flt\<lparr>secteur := requested\<rparr>)) =
              {atel \<in> set (ateliers db). \<not> a_is_deleted atel \<and> a_secteur atel = Some a} \<and>
            length (synthese wb) =
              length (filter (\<lambda>atel. \<not> a_is_deleted atel \<and> a_secteur atel = Some a) (ateliers db)) \<and>
            (\<forall>r\<in>set (synthese wb). r_secteur r = Some a) \<and>
            (\<forall>sh\<in>set (sheets wb). fst (sh_heading sh) = Some a) \<and>
            (\<forall>u'. can u' ''scope:all_secteurs'' \<longrightarrow>
                  wb = build_magato_per_atelier_workbook u' db (flt\<lparr>secteur := Some a\<rparr>))"
proof -
  define a where "a = strip (or_empty (secteur_assigne u))"
  define wb where "wb = build_magato_per_atelier_workbook u db (flt\<lparr>secteur := requested\<rparr>)"
  define scoped where
    "scoped = sort_key (\<lambda>a. (a_secteur a, a_nom a))
                (filter (\<lambda>atel. \<not> a_is_deleted atel \<and> a_secteur atel = Some a) (ateliers db))"
  have ne: "a \<noteq> []" using assms(2) by (simp add: a_def)
  have sc: "scope_ateliers u db f = scoped" for f
    using scope_ateliers_restricted [OF assms] by (simp add: scoped_def a_def)
  have wb: "wb = \<lparr>synthese = map fst (map (export_atelier db flt) scoped),
                  sheets = List.map_filter snd (map (export_atelier db flt) scoped)\<rparr>"
    by (simp add: wb_def build_magato_per_atelier_workbook_def sc export_atelier_secteur)
  have in_scoped: "a_secteur atel = Some a" if "atel \<in> set scoped" for atel
    using that by (simp add: scoped_def)
  have 1: "eff_secteur u (flt\<lparr>secteur := requested\<rparr>) = Some a"
    using eff_secteur_restricted [OF assms] by (simp add: a_def)
  have 2: "pedago_scope_secteur u = Some a"
    using assms by (simp add: pedago_scope_secteur_def or_none_def a_def)
  have 3: "wb = build_magato_per_atelier_workbook u db flt"
    by (simp add: wb build_magato_per_atelier_workbook_def sc)
  have 4: "set (scope_ateliers u db (flt\<lparr>secteur := requested\<rparr>)) =
             {atel \<in> set (ateliers db). \<not> a_is_deleted atel \<and> a_secteur atel = Some a}"
    by (auto simp: sc scoped_def)
  have 5: "length (synthese wb) =
             length (filter (\<lambda>atel. \<not> a_is_deleted atel \<and> a_secteur atel = Some a) (ateliers db))"
    by (simp add: wb scoped_def)
  have 6: "\<forall>r\<in>set (synthese wb). r_secteur r = Some a"
    by (auto simp: wb export_row_secteur in_scoped)
  have 7: "\<forall>sh\<in>set (sheets wb). fst (sh_heading sh) = Some a"
  proof
    fix sh assume "sh \<in> set (sheets wb)"
    then obtain atel where "atel \<in> set scoped" "snd (export_atelier db flt atel) = Some sh"
      by (auto simp: wb List.map_filter_def)
    then show "fst (sh_heading sh) = Some a"
      using export_sheet_secteur [of db flt atel sh] in_scoped [of atel] by simp
  qed
  have 8: "wb = build_magato_per_atelier_workbook u' db (flt\<lparr>secteur := Some a\<rparr>)"
    if "can u' ''scope:all_secteurs''" for u'
    using scope_ateliers_all_secteurs [OF that ne, of db flt]
    by (simp add: wb build_magato_per_atelier_workbook_def scoped_def export_atelier_secteur)
  from 1 2 3 4 5 6 7 8 show ?thesis
    unfolding Let_def a_def [symmetric] wb_def [symmetric] by blast
qed

theorem restricted_scope_overrides_request_witness:
  "eff_secteur (ex_user (Some ''Nord'')) ((ex_flt None)\<lparr>secteur := Some ''Sud''\<rparr>) = Some ''Nord'' \<and>
   pedago_scope_secteur (ex_user (Some ''Nord'')) = Some ''Nord'' \<and>
   build_magato_per_atelier_workbook (ex_user (Some ''Nord'')) ex_db
       ((ex_flt None)\<lparr>secteur := Some ''Sud''\<rparr>) =
     build_magato_per_atelier_workbook (ex_user (Some ''Nord'')) ex_db (ex_flt None) \<and>
   length (synthese (build_magato_per_atelier_workbook (ex_user (Some ''Nord'')) ex_db
                       ((ex_flt None)\<lparr>secteur := Some ''Sud''\<rparr>))) = 1 \<and>
   map r_secteur (synthese (build_magato_per_atelier_workbook (ex_user (Some ''Nord'')) ex_db
                              ((ex_flt None)\<lparr>secteur := Some ''Sud''\<rparr>))) = [Some ''Nord'']"
proof -
  have c: "\<not> can (ex_user (Some ''Nord'')) ''scope:all_secteurs''"
    by (simp add: ex_user_def)
  have a: "strip (or_empty (secteur_assigne (ex_user (Some ''Nord'')))) = ''Nord''"
    by (simp add: ex_user_def or_empty_def strip_def isspace_def)
  then have n: "strip (or_empty (secteur_assigne (ex_user (Some ''Nord'')))) \<noteq> []"
    by simp
  have l: "length (filter (\<lambda>atel. \<not> a_is_deleted atel \<and> a_secteur atel = Some ''Nord'')
                     (ateliers ex_db)) = 1"
    by code_simp
  have m: "map r_secteur (synthese (build_magato_per_atelier_workbook (ex_user (Some ''Nord''))
                                      ex_db ((ex_flt None)\<lparr>secteur := Some ''Sud''\<rparr>)))
             = [Some ''Nord'']"
    by code_simp
  note t = restricted_scope_overrides_request [OF c n, where flt = "ex_flt None"
      and requested = "Some ''Sud''" and db = ex_db, unfolded Let_def a]
  from t have "length (synthese (build_magato_per_atelier_workbook (ex_user (Some ''Nord''))
                                   ex_db ((ex_flt None)\<lparr>secteur := Some ''Sud''\<rparr>))) =
                 length (filter (\<lambda>atel. \<not> a_is_deleted atel \<and> a_secteur atel = Some ''Nord'')
                           (ateliers ex_db))"
    by blast
  then have "length (synthese (build_magato_per_atelier_workbook (ex_user (Some ''Nord''))
                                 ex_db ((ex_flt None)\<lparr>secteur := Some ''Sud''\<rparr>))) = 1"
    by (simp only: l)
  with t m show ?thesis by blast
qed

text \<open>
  An assigned sector made of one space is not empty, and the caller then gets the sector
  that was requested: the workbooks for Sud and for Nord differ.
\<close>

theorem blank_assigned_sector_counterexample:
  "\<not> can (ex_user (Some '' '')) ''scope:all_secteurs'' \<and>
   secteur_assigne (ex_user (Some '' '')) = Some '' '' \<and>
   eff_secteur (ex_user (Some '' '')) (ex_flt (Some ''Sud'')) = Some ''Sud'' \<and>
   eff_secteur (ex_user (Some '' '')) (ex_flt (Some ''Nord'')) = Some ''Nord'' \<and>
   synthese (build_magato_per_atelier_workbook (ex_user (Some '' '')) ex_db (ex_flt (Some ''Sud'')))
     = [make_row ex_atelier_b 0 0 0 0 0] \<and>
   synthese (build_magato_per_atelier_workbook (ex_user (Some '' '')) ex_db (ex_flt (Some ''Nord'')))
     = [make_row ex_atelier_a 2 3 2 2 1]"
  by code_simp

section \<open>The summary of the per-atelier export\<close>

lemma export_no_sessions:
  "atelier_sessions db flt atel = [] \<Longrightarrow> fst (export_atelier db flt atel) = make_row atel 0 0 0 0 0"
  by (simp add: export_atelier_def)

lemma atelier_sessions_empty:
  "(\<forall>s\<in>set (sessions db). s_atelier_id s = a_id atel \<longrightarrow> \<not> in_period flt s) \<Longrightarrow>
   atelier_sessions db flt atel = []"
  by (auto simp: atelier_sessions_def filter_empty_conv simp flip: set_empty)

text \<open>
  Claim C7. An atelier that is not deleted and lies in the effective sector scope, none of
  whose sessions has its effective date in the filtered period, has a row in the summary
  with 0 sessions, 0 presences, 0 unique participants, 0 new and 0 recurring.
\<close>

theorem empty_atelier_kept_in_summary:
  assumes "atel \<in> set (ateliers db)" and "\<not> a_is_deleted atel"
    and "truthy (eff_secteur u flt) \<longrightarrow> a_secteur atel = eff_secteur u flt"
    and "\<forall>s\<in>set (sessions db). s_atelier_id s = a_id atel \<longrightarrow> \<not> in_period flt s"
  shows "\<lparr>r_secteur = a_secteur atel, r_atelier = a_nom atel, nb_sessions = 0, nb_presences = 0,
          nb_participants_uniques = 0, nouveaux = 0, recurrents = 0\<rparr>
         \<in> set (synthese (build_magato_per_atelier_workbook u db flt))"
proof -
  from assms(1-3) have "atel \<in> set (scope_ateliers u db flt)"
    by (simp add: scope_ateliers_def Let_def)
  moreover from assms(4) have "fst (export_atelier db flt atel) = make_row atel 0 0 0 0 0"
    by (simp add: atelier_sessions_empty export_no_sessions)
  ultimately have "make_row atel 0 0 0 0 0
                     \<in> set (synthese (build_magato_per_atelier_workbook u db flt))"
    by (force simp: build_magato_per_atelier_workbook_def Let_def)
  then show ?thesis by (simp add: make_row_def)
qed

theorem empty_atelier_kept_in_summary_witness:
  "\<lparr>r_secteur = Some ''Sud'', r_atelier = Some ''B'', nb_sessions = 0, nb_presences = 0,
     nb_participants_uniques = 0, nouveaux = 0, recurrents = 0\<rparr>
   \<in> set (synthese (build_magato_per_atelier_workbook (ex_user (Some ''Sud'')) ex_db (ex_flt None)))"
proof -
  have 1: "ex_atelier_b \<in> set (ateliers ex_db)" by (simp add: ex_db_def)
  have 2: "\<not> a_is_deleted ex_atelier_b" by (simp add: ex_atelier_b_def)
  have 3: "truthy (eff_secteur (ex_user (Some ''Sud'')) (ex_flt None)) \<longrightarrow>
           a_secteur ex_atelier_b = eff_secteur (ex_user (Some ''Sud'')) (ex_flt None)"
    by code_simp
  have 4: "\<forall>s\<in>set (sessions ex_db). s_atelier_id s = a_id ex_atelier_b
             \<longrightarrow> \<not> in_period (ex_flt None) s"
    by code_simp
  from empty_atelier_kept_in_summary [OF 1 2 3 4] show ?thesis
    by (simp add: ex_atelier_b_def)
qed

section \<open>The attendance matrix of a sheet\<close>

lemma update_entry:
  "(k, v) \<in> set (AList.update k' v' al) \<Longrightarrow> (k, v) = (k', v') \<or> (k, v) \<in> set al"
  by (induction al) (auto split: if_splits)

lemma fold_update_entry:
  "(sid, j) \<in> set (fold (\<lambda>(idx, s) m. AList.update (s_id s) idx m) es m0) \<Longrightarrow>
   (sid, j) \<in> set m0 \<or> (\<exists>s. (j, s) \<in> set es \<and> s_id s = sid)"
proof (induction es arbitrary: m0)
  case Nil
  then show ?case by simp
next
  case (Cons e es)
  obtain idx s where e: "e = (idx, s)" by (cases e)
  from Cons.prems have "(sid, j) \<in> set (fold (\<lambda>(idx, s) m. AList.update (s_id s) idx m) es
                           (AList.update (s_id s) idx m0))"
    by (simp add: e)
  from Cons.IH [OF this] show ?case
    using update_entry [of sid j "s_id s" idx m0] by (auto simp: e)
qed

text \<open>An entry of \<open>sid_index\<close> sends the id of a session to a column of that session.\<close>

lemma sid_index_entry:
  "(sid, j) \<in> set (sid_index ss) \<Longrightarrow> j < length ss \<and> s_id (ss ! j) = sid"
  using fold_update_entry [of sid j "enumerate 0 ss" "[]"]
  by (auto simp: sid_index_def in_set_enumerate_eq)

lemma fold_mark_length:
  "length (fold (\<lambda>(sid, idx) row. if (pid, sid) \<in> pres then row[2 + idx := ''1''] else row) al row0)
   = length row0"
  by (induction al arbitrary: row0) (auto split: prod.splits)

text \<open>A cell that reads 1 after the loop read 1 before it, or was written by the loop.\<close>

lemma fold_mark_cell:
  "fold (\<lambda>(sid, idx) row. if (pid, sid) \<in> pres then row[2 + idx := ''1''] else row) al row0 ! k
     = ''1'' \<Longrightarrow>
   row0 ! k = ''1'' \<or> (\<exists>sid idx. (sid, idx) \<in> set al \<and> (pid, sid) \<in> pres \<and> 2 + idx = k)"
proof (induction al arbitrary: row0)
  case Nil
  then show ?case by simp
next
  case (Cons e al)
  obtain sid idx where e: "e = (sid, idx)" by (cases e)
  let ?row1 = "if (pid, sid) \<in> pres then row0[2 + idx := ''1''] else row0"
  from Cons.prems
  have "fold (\<lambda>(sid, idx) row. if (pid, sid) \<in> pres then row[2 + idx := ''1''] else row)
          al ?row1 ! k = ''1''"
    by (simp add: e)
  from Cons.IH [OF this] consider "?row1 ! k = ''1''"
    | "\<exists>sid idx. (sid, idx) \<in> set al \<and> (pid, sid) \<in> pres \<and> 2 + idx = k"
    by blast
  then show ?case
  proof cases
    case 1
    show ?thesis
    proof (cases "(pid, sid) \<in> pres \<and> 2 + idx = k")
      case True
      then show ?thesis by (auto simp: e)
    next
      case False
      with 1 have "row0 ! k = ''1''" by (auto split: if_splits)
      then show ?thesis by simp
    qed
  next
    case 2
    then show ?thesis by auto
  qed
qed

lemma matrix_row_length: "length (matrix_row ss pres p) = 2 + length ss"
  by (simp add: matrix_row_def fold_mark_length)

lemma matrix_row_cell:
  assumes "j < length ss" and "matrix_row ss pres p ! (2 + j) = ''1''"
  shows "(pa_id p, s_id (ss ! j)) \<in> pres"
proof -
  let ?row0 = "[or_empty (pa_nom p), or_empty (pa_prenom p)] @ replicate (length ss) []"
  from assms(1) have "?row0 ! (2 + j) \<noteq> ''1''" by simp
  with fold_mark_cell [of "pa_id p" pres "sid_index ss" ?row0 "2 + j"] assms(2)
  obtain sid idx where "(sid, idx) \<in> set (sid_index ss)" "(pa_id p, sid) \<in> pres" "2 + idx = 2 + j"
    unfolding matrix_row_def by blast
  with sid_index_entry [of sid idx ss] show ?thesis by simp
qed

lemma present_iff: "(a, b) \<in> present rows \<longleftrightarrow> (Some a, Some b) \<in> set rows"
  by (force simp: present_def List.map_filter_def split: option.splits)

lemma pres_rows_entry:
  "(Some a, Some b) \<in> set (pres_rows db ids) \<Longrightarrow>
   \<exists>pr\<in>set (presences db). pr_participant_id pr = Some a \<and> pr_session_id pr = Some b"
  by (auto simp: pres_rows_def)

lemma export_sheet_rows:
  assumes "export_atelier db flt atel = (r, Some sh)"
  shows "sh = make_sheet atel (atelier_sessions db flt atel)
              (map (matrix_row (atelier_sessions db flt atel)
                      (present (pres_rows db (map s_id (atelier_sessions db flt atel)))))
                 (parts db (pid_set (pres_rows db (map s_id (atelier_sessions db flt atel))))))"
  using assms
  by (auto simp: export_atelier_def Let_def pid_set_def parts_def List.map_filter_def
           split: if_splits)

lemma workbook_sheet_origin:
  assumes "sh \<in> set (sheets (build_magato_per_atelier_workbook u db flt))"
  shows "\<exists>atel\<in>set (ateliers db). \<exists>r. export_atelier db flt atel = (r, Some sh)"
proof -
  from assms obtain atel where a: "atel \<in> set (scope_ateliers u db flt)"
    and s: "snd (export_atelier db flt atel) = Some sh"
    by (auto simp: build_magato_per_atelier_workbook_def Let_def List.map_filter_def)
  from a have "atel \<in> set (ateliers db)" by (simp add: scope_ateliers_def Let_def)
  moreover from s have "export_atelier db flt atel = (fst (export_atelier db flt atel), Some sh)"
    by (metis prod.collapse)
  ultimately show ?thesis by blast
qed

text \<open>
  Every sheet of the workbook belongs to an atelier: its columns are the sessions of the
  atelier in the period and its rows the participants found for them. A cell that reads 1
  stands for a presence of the source that links the participant of the row to the session
  of the column.
\<close>

lemma sheet_cells_backed_by_presences:
  assumes "sh \<in> set (sheets (build_magato_per_atelier_workbook u db flt))"
  shows "\<exists>atel\<in>set (ateliers db).
           (let ss = atelier_sessions db flt atel;
                ps = parts db (pid_set (pres_rows db (map s_id ss)))
            in sh_headers sh = map session_date ss \<and> length (sh_rows sh) = length ps \<and>
               (\<forall>i<length ps. length (sh_rows sh ! i) = 2 + length ss \<and>
                  (\<forall>j<length ss. sh_rows sh ! i ! (2 + j) = ''1'' \<longrightarrow>
                     (\<exists>pr\<in>set (presences db).
                        pr_participant_id pr = Some (pa_id (ps ! i)) \<and>
                        pr_session_id pr = Some (s_id (ss ! j))))))"
proof -
  from workbook_sheet_origin [OF assms] obtain atel r
    where atel: "atel \<in> set (ateliers db)" and ex: "export_atelier db flt atel = (r, Some sh)"
    by blast
  define ss where "ss = atelier_sessions db flt atel"
  define rows where "rows = pres_rows db (map s_id ss)"
  define ps where "ps = parts db (pid_set rows)"
  have sh: "sh = make_sheet atel ss (map (matrix_row ss (present rows)) ps)"
    using export_sheet_rows [OF ex] by (simp add: ss_def rows_def ps_def)
  have cell: "\<exists>pr\<in>set (presences db).
                pr_participant_id pr = Some (pa_id (ps ! i)) \<and> pr_session_id pr = Some (s_id (ss ! j))"
    if "i < length ps" "j < length ss" "sh_rows sh ! i ! (2 + j) = ''1''" for i j
  proof -
    from that have "matrix_row ss (present rows) (ps ! i) ! (2 + j) = ''1''"
      by (simp add: sh make_sheet_def)
    from matrix_row_cell [OF that(2) this]
    have "(Some (pa_id (ps ! i)), Some (s_id (ss ! j))) \<in> set rows"
      by (simp add: present_iff)
    then show ?thesis
      unfolding rows_def by (rule pres_rows_entry)
  qed
  have "sh_headers sh = map session_date ss \<and> length (sh_rows sh) = length ps \<and>
        (\<forall>i<length ps. length (sh_rows sh ! i) = 2 + length ss \<and>
           (\<forall>j<length ss. sh_rows sh ! i ! (2 + j) = ''1'' \<longrightarrow>
              (\<exists>pr\<in>set (presences db).
                 pr_participant_id pr = Some (pa_id (ps ! i)) \<and>
                 pr_session_id pr = Some (s_id (ss ! j)))))"
    using cell by (simp add: sh make_sheet_def matrix_row_length)
  then show ?thesis
    using atel unfolding ss_def rows_def ps_def Let_def by blast
qed

text \<open>The matrix has a key for the pairs of the bounded sets only, and \<open>True\<close> for a presence.\<close>

lemma magato_matrix_key:
  "magato_matrix db ps ss (pid, sid) = Some b \<Longrightarrow>
   pid \<in> pa_id ` set ps \<and> sid \<in> s_id ` set ss \<and>
   (b \<longrightarrow> (\<exists>pr\<in>set (presences db). pr_participant_id pr = Some pid \<and> pr_session_id pr = Some sid))"
  unfolding magato_matrix_def by (drule map_of_SomeD) (auto simp: list_ex_iff)

lemma bounded_sessions_sub: "set (bounded_sessions db flt eff n) \<subseteq> set (scoped_sessions db flt eff)"
  unfolding bounded_sessions_def using set_take_subset [of "nat n"] by fastforce

text \<open>
  Claim C8. In the per-atelier workbook, every sheet has the sessions of an atelier in the
  period as columns and the participants found for them as rows, and a cell that reads 1
  stands for a presence of the source linking that participant to that session. In the
  capped matrix, at most \<open>max_sessions\<close> sessions and \<open>max_participants\<close> participants are
  kept; the matrix has an entry only for a participant and a session that are both kept, an
  entry is true only when a presence of the source links them, and the sheet \<open>Matrice\<close> has
  one row per kept participant and one cell per kept session, a cell reading 1 only for such
  a presence. A presence whose participant or session was cut off has no entry and no cell.
\<close>

theorem matrix_cells_backed_by_presences:
  "(\<forall>sh\<in>set (sheets (build_magato_per_atelier_workbook u db flt)).
      \<exists>atel\<in>set (ateliers db).
        (let ss = atelier_sessions db flt atel;
             ps = parts db (pid_set (pres_rows db (map s_id ss)))
         in sh_headers sh = map session_date ss \<and> length (sh_rows sh) = length ps \<and>
            (\<forall>i<length ps. length (sh_rows sh ! i) = 2 + length ss \<and>
               (\<forall>j<length ss. sh_rows sh ! i ! (2 + j) = ''1'' \<longrightarrow>
                  (\<exists>pr\<in>set (presences db).
                     pr_participant_id pr = Some (pa_id (ps ! i)) \<and>
                     pr_session_id pr = Some (s_id (ss ! j))))))) \<and>
   (let mg = compute_magatomatique db flt eff view max_sessions max_participants
    in length (mg_sessions mg) \<le> nat max_sessions \<and>
       length (mg_participants mg) \<le> nat max_participants \<and>
       set (mg_sessions mg) \<subseteq> set (sessions db) \<and>
       set (mg_participants mg) \<subseteq> set (participants db) \<and>
       (\<forall>pid sid. mg_matrix mg (pid, sid) \<noteq> None \<longrightarrow>
          pid \<in> pa_id ` set (mg_participants mg) \<and> sid \<in> s_id ` set (mg_sessions mg)) \<and>
       (\<forall>pid sid. mg_matrix mg (pid, sid) = Some True \<longrightarrow>
          (\<exists>pr\<in>set (presences db). pr_participant_id pr = Some pid \<and> pr_session_id pr = Some sid)) \<and>
       (\<forall>rows. matrice_sheet mg = Some rows \<longrightarrow>
          length rows = length (mg_participants mg) \<and>
          (\<forall>i<length rows. length (snd (rows ! i)) = length (mg_sessions mg) \<and>
             (\<forall>j<length (mg_sessions mg). snd (rows ! i) ! j = ''1'' \<longrightarrow>
                (\<exists>pr\<in>set (presences db).
                   pr_participant_id pr = Some (pa_id (mg_participants mg ! i)) \<and>
                   pr_session_id pr = Some (s_id (mg_sessions mg ! j)))))))"
proof (rule conjI)
  show "\<forall>sh\<in>set (sheets (build_magato_per_atelier_workbook u db flt)).
      \<exists>atel\<in>set (ateliers db).
        (let ss = atelier_sessions db flt atel;
             ps = parts db (pid_set (pres_rows db (map s_id ss)))
         in sh_headers sh = map session_date ss \<and> length (sh_rows sh) = length ps \<and>
            (\<forall>i<length ps. length (sh_rows sh ! i) = 2 + length ss \<and>
               (\<forall>j<length ss. sh_rows sh ! i ! (2 + j) = ''1'' \<longrightarrow>
                  (\<exists>pr\<in>set (presences db).
                     pr_participant_id pr = Some (pa_id (ps ! i)) \<and>
                     pr_session_id pr = Some (s_id (ss ! j))))))"
    using sheet_cells_backed_by_presences by blast
next
  define mg where "mg = compute_magatomatique db flt eff view max_sessions max_participants"
  have 1: "length (mg_sessions mg) \<le> nat max_sessions"
    by (simp add: mg_def compute_magatomatique_def Let_def bounded_sessions_def)
  have 2: "length (mg_participants mg) \<le> nat max_participants"
    by (simp add: mg_def compute_magatomatique_def Let_def bounded_participants_def)
  have 3: "set (mg_sessions mg) \<subseteq> set (sessions db)"
    using bounded_sessions_sub [of db flt eff max_sessions]
    by (auto simp: mg_def compute_magatomatique_def Let_def scoped_sessions_def)
  have 4: "set (mg_participants mg) \<subseteq> set (participants db)"
    by (auto simp: mg_def compute_magatomatique_def Let_def bounded_participants_def
          dest!: in_set_takeD)
  have key: "pid \<in> pa_id ` set (mg_participants mg) \<and> sid \<in> s_id ` set (mg_sessions mg) \<and>
             (b \<longrightarrow> (\<exists>pr\<in>set (presences db).
                        pr_participant_id pr = Some pid \<and> pr_session_id pr = Some sid))"
    if "mg_matrix mg (pid, sid) = Some b" for pid sid b
  proof (cases "view = ''matrix''")
    case True
    with that have "magato_matrix db (mg_participants mg) (mg_sessions mg) (pid, sid) = Some b"
      by (simp add: mg_def compute_magatomatique_def Let_def)
    then show ?thesis by (rule magato_matrix_key)
  next
    case False
    with that show ?thesis by (simp add: mg_def compute_magatomatique_def)
  qed
  have 5: "\<forall>pid sid. mg_matrix mg (pid, sid) \<noteq> None \<longrightarrow>
             pid \<in> pa_id ` set (mg_participants mg) \<and> sid \<in> s_id ` set (mg_sessions mg)"
    using key by blast
  have 6: "\<forall>pid sid. mg_matrix mg (pid, sid) = Some True \<longrightarrow>
             (\<exists>pr\<in>set (presences db). pr_participant_id pr = Some pid \<and> pr_session_id pr = Some sid)"
    using key by blast
  have 7: "length rows = length (mg_participants mg) \<and>
           (\<forall>i<length rows. length (snd (rows ! i)) = length (mg_sessions mg) \<and>
              (\<forall>j<length (mg_sessions mg). snd (rows ! i) ! j = ''1'' \<longrightarrow>
                 (\<exists>pr\<in>set (presences db).
                    pr_participant_id pr = Some (pa_id (mg_participants mg ! i)) \<and>
                    pr_session_id pr = Some (s_id (mg_sessions mg ! j)))))"
    if "matrice_sheet mg = Some rows" for rows
  proof -
    from that have rows: "rows = map (\<lambda>p. ((pa_nom p, pa_prenom p),
                            map (\<lambda>s. if mg_matrix mg (pa_id p, s_id s) = Some True then ''1'' else [])
                              (mg_sessions mg)))
                   (mg_participants mg)"
      by (simp add: matrice_sheet_def split: if_splits)
    have "\<exists>pr\<in>set (presences db).
            pr_participant_id pr = Some (pa_id (mg_participants mg ! i)) \<and>
            pr_session_id pr = Some (s_id (mg_sessions mg ! j))"
      if "i < length rows" "j < length (mg_sessions mg)" "snd (rows ! i) ! j = ''1''" for i j
    proof -
      from that have "mg_matrix mg (pa_id (mg_participants mg ! i), s_id (mg_sessions mg ! j))
                        = Some True"
        by (simp add: rows split: if_splits)
      with 6 show ?thesis by blast
    qed
    then show ?thesis by (simp add: rows)
  qed
  from 1 2 3 4 5 6 7
  show "let mg = compute_magatomatique db flt eff view max_sessions max_participants
    in length (mg_sessions mg) \<le> nat max_sessions \<and>
       length (mg_participants mg) \<le> nat max_participants \<and>
       set (mg_sessions mg) \<subseteq> set (sessions db) \<and>
       set (mg_participants mg) \<subseteq> set (participants db) \<and>
       (\<forall>pid sid. mg_matrix mg (pid, sid) \<noteq> None \<longrightarrow>
          pid \<in> pa_id ` set (mg_participants mg) \<and> sid \<in> s_id ` set (mg_sessions mg)) \<and>
       (\<forall>pid sid. mg_matrix mg (pid, sid) = Some True \<longrightarrow>
          (\<exists>pr\<in>set (presences db). pr_participant_id pr = Some pid \<and> pr_session_id pr = Some sid)) \<and>
       (\<forall>rows. matrice_sheet mg = Some rows \<longrightarrow>
          length rows = length (mg_participants mg) \<and>
          (\<forall>i<length rows. length (snd (rows ! i)) = length (mg_sessions mg) \<and>
             (\<forall>j<length (mg_sessions mg). snd (rows ! i) ! j = ''1'' \<longrightarrow>
                (\<exists>pr\<in>set (presences db).
                   pr_participant_id pr = Some (pa_id (mg_participants mg ! i)) \<and>
                   pr_session_id pr = Some (s_id (mg_sessions mg ! j))))))"
    unfolding Let_def mg_def [symmetric] by blast
qed

theorem matrix_cells_backed_by_presences_witness:
  "ex_sheet_a \<in> set (sheets (build_magato_per_atelier_workbook (ex_user (Some ''Nord'')) ex_db
                              (ex_flt None))) \<and>
   (\<exists>atel\<in>set (ateliers ex_db).
      (let ss = atelier_sessions ex_db (ex_flt None) atel;
           ps = parts ex_db (pid_set (pres_rows ex_db (map s_id ss)))
       in sh_headers ex_sheet_a = map session_date ss \<and> length (sh_rows ex_sheet_a) = length ps \<and>
          (\<forall>i<length ps. length (sh_rows ex_sheet_a ! i) = 2 + length ss \<and>
             (\<forall>j<length ss. sh_rows ex_sheet_a ! i ! (2 + j) = ''1'' \<longrightarrow>
                (\<exists>pr\<in>set (presences ex_db).
                   pr_participant_id pr = Some (pa_id (ps ! i)) \<and>
                   pr_session_id pr = Some (s_id (ss ! j))))))) \<and>
   map s_id (mg_sessions (compute_magatomatique ex_db (ex_flt None) None ''matrix'' 1 1)) = [2] \<and>
   map pa_id (mg_participants (compute_magatomatique ex_db (ex_flt None) None ''matrix'' 1 1)) = [1] \<and>
   mg_matrix (compute_magatomatique ex_db (ex_flt None) None ''matrix'' 1 1) (1, 2) = Some True \<and>
   mg_matrix (compute_magatomatique ex_db (ex_flt None) None ''matrix'' 1 1) (2, 1) = None \<and>
   matrice_sheet (compute_magatomatique ex_db (ex_flt None) None ''matrix'' 1 1)
     = Some [((Some ''Xavier'', Some ''X''), [''1''])] \<and>
   (\<exists>pr\<in>set (presences ex_db). pr_participant_id pr = Some 1 \<and> pr_session_id pr = Some 2)"
proof -
  have h: "ex_sheet_a \<in> set (sheets (build_magato_per_atelier_workbook (ex_user (Some ''Nord''))
                                       ex_db (ex_flt None)))"
    by code_simp
  have m: "map s_id (mg_sessions (compute_magatomatique ex_db (ex_flt None) None ''matrix'' 1 1))
             = [2] \<and>
           map pa_id (mg_participants (compute_magatomatique ex_db (ex_flt None) None ''matrix'' 1 1))
             = [1] \<and>
           mg_matrix (compute_magatomatique ex_db (ex_flt None) None ''matrix'' 1 1) (1, 2)
             = Some True \<and>
           mg_matrix (compute_magatomatique ex_db (ex_flt None) None ''matrix'' 1 1) (2, 1) = None \<and>
           matrice_sheet (compute_magatomatique ex_db (ex_flt None) None ''matrix'' 1 1)
             = Some [((Some ''Xavier'', Some ''X''), [''1''])]"
    by code_simp
  note t = matrix_cells_backed_by_presences [of "ex_user (Some ''Nord'')" ex_db "ex_flt None"
      None "''matrix''" 1 1, unfolded Let_def]
  from t h have a: "\<exists>atel\<in>set (ateliers ex_db).
      (let ss = atelier_sessions ex_db (ex_flt None) atel;
           ps = parts ex_db (pid_set (pres_rows ex_db (map s_id ss)))
       in sh_headers ex_sheet_a = map session_date ss \<and> length (sh_rows ex_sheet_a) = length ps \<and>
          (\<forall>i<length ps. length (sh_rows ex_sheet_a ! i) = 2 + length ss \<and>
             (\<forall>j<length ss. sh_rows ex_sheet_a ! i ! (2 + j) = ''1'' \<longrightarrow>
                (\<exists>pr\<in>set (presences ex_db).
                   pr_participant_id pr = Some (pa_id (ps ! i)) \<and>
                   pr_session_id pr = Some (s_id (ss ! j))))))"
    unfolding Let_def by blast
  from t m have b: "\<exists>pr\<in>set (presences ex_db).
                      pr_participant_id pr = Some 1 \<and> pr_session_id pr = Some 2"
    by blast
  from h a m b show ?thesis by blast
qed

section \<open>New and recurring participants\<close>

lemma min_date_in_range:
  "xs \<noteq> [] \<Longrightarrow> \<forall>x\<in>set xs. \<exists>d. x = Some d \<and> f \<le> d \<and> d \<le> t \<Longrightarrow>
   \<exists>m. min_date xs = Some m \<and> f \<le> m \<and> m \<le> t"
proof (induction xs)
  case Nil
  then show ?case by simp
next
  case (Cons x xs)
  from Cons.prems(2) obtain d where d: "x = Some d" "f \<le> d" "d \<le> t" by auto
  show ?case
  proof (cases "xs = []")
    case True
    with d show ?thesis by simp
  next
    case False
    with Cons obtain m where "min_date xs = Some m" "f \<le> m" "m \<le> t" by auto
    with d show ?thesis by (auto simp: min_def)
  qed
qed

lemma kpi_new_count:
  "fst (fold (kpi_step db flt ids) pids acc) =
   fst acc + length (filter (\<lambda>pid. case c_map db ids pid of
                                      None \<Rightarrow> False
                                    | Some (n, fd) \<Rightarrow>
                                        (case (fd, date_from flt, date_to flt) of
                                           (Some d, Some f, Some t) \<Rightarrow> f \<le> d \<and> d \<le> t
                                         | _ \<Rightarrow> False)) pids)"
proof (induction pids arbitrary: acc)
  case Nil
  then show ?case by simp
next
  case (Cons pid pids)
  show ?case
    by (simp add: Cons.IH) (auto simp: kpi_step_def split: option.splits)
qed

lemma in_period_bounds:
  "date_from flt = Some f \<Longrightarrow> date_to flt = Some t \<Longrightarrow> in_period flt s \<Longrightarrow>
   \<exists>d. session_date s = Some d \<and> f \<le> d \<and> d \<le> t"
  by (auto simp: in_period_def split: option.splits)

lemma same_id_same_session:
  "distinct (map s_id xs) \<Longrightarrow> a \<in> set xs \<Longrightarrow> b \<in> set xs \<Longrightarrow> s_id a = s_id b \<Longrightarrow> a = b"
  by (meson distinct_map inj_onD)

lemma new_for_every_participant:
  assumes dist: "distinct (map s_id (sessions db))"
    and f: "date_from flt = Some f" and t: "date_to flt = Some t"
    and pid: "pid \<in> set (pid_set (pres_rows db (map s_id (atelier_sessions db flt atel))))"
  shows "\<exists>n d. c_map db (map s_id (atelier_sessions db flt atel)) pid = Some (n, Some d) \<and>
               f \<le> d \<and> d \<le> t"
proof -
  define ss where "ss = atelier_sessions db flt atel"
  define grp where
    "grp = filter (\<lambda>(pr, s). pr_participant_id pr = Some pid) (counts_join db (map s_id ss))"
  have ss_sub: "s \<in> set (sessions db) \<and> in_period flt s" if "s \<in> set ss" for s
    using that by (auto simp: ss_def atelier_sessions_def)
  from pid obtain pr i where pr: "pr \<in> set (presences db)" "pr_participant_id pr = Some pid"
      "pr_session_id pr = Some i" "i \<in> s_id ` set ss"
    by (auto simp: pid_set_def pres_rows_def List.map_filter_def ss_def split: option.splits)
  then obtain s where s: "s \<in> set ss" "s_id s = i" by auto
  with pr ss_sub have "(pr, s) \<in> set grp"
    by (auto simp: grp_def counts_join_def)
  then have ne: "grp \<noteq> []" by auto
  have "\<exists>d. session_date s' = Some d \<and> f \<le> d \<and> d \<le> t" if "(pr', s') \<in> set grp" for pr' s'
  proof -
    from that have m: "s' \<in> set (sessions db)" "s_id s' \<in> s_id ` set ss"
      by (auto simp: grp_def counts_join_def)
    then obtain s'' where s'': "s'' \<in> set ss" "s_id s'' = s_id s'" by auto
    with ss_sub have "s'' \<in> set (sessions db)" by blast
    with dist m(1) s''(2) have "s'' = s'" by (blast intro: same_id_same_session)
    with s''(1) ss_sub have "in_period flt s'" by blast
    with f t show ?thesis by (rule in_period_bounds)
  qed
  then have "\<forall>x\<in>set (map (\<lambda>(pr, s). session_date s) grp). \<exists>d. x = Some d \<and> f \<le> d \<and> d \<le> t"
    by auto
  with ne obtain m where "min_date (map (\<lambda>(pr, s). session_date s) grp) = Some m" "f \<le> m" "m \<le> t"
    using min_date_in_range [of "map (\<lambda>(pr, s). session_date s) grp" f t] by auto
  with ne show ?thesis
    by (auto simp: c_map_def Let_def grp_def ss_def)
qed

text \<open>
  With session ids that are unique and both bounds of the period set, the test of the first
  date against the period holds for every participant of the loop: the column Nouveaux of a
  summary row repeats the column Participants uniques.
\<close>

lemma nouveaux_equals_uniques:
  assumes "distinct (map s_id (sessions db))"
    and "date_from flt = Some f" and "date_to flt = Some t"
  shows "nouveaux (fst (export_atelier db flt atel))
           = nb_participants_uniques (fst (export_atelier db flt atel))"
proof -
  define ids where "ids = map s_id (atelier_sessions db flt atel)"
  define pids where "pids = pid_set (pres_rows db ids)"
  have "filter (\<lambda>pid. case c_map db ids pid of
                         None \<Rightarrow> False
                       | Some (n, fd) \<Rightarrow>
                           (case (fd, date_from flt, date_to flt) of
                              (Some d, Some f, Some t) \<Rightarrow> f \<le> d \<and> d \<le> t
                            | _ \<Rightarrow> False)) pids = pids"
    unfolding filter_id_conv
  proof
    fix pid assume "pid \<in> set pids"
    then obtain n d where "c_map db ids pid = Some (n, Some d)" "f \<le> d" "d \<le> t"
      using new_for_every_participant [OF assms, of pid atel] unfolding pids_def ids_def by blast
    with assms(2,3) show "case c_map db ids pid of
                         None \<Rightarrow> False
                       | Some (n, fd) \<Rightarrow>
                           (case (fd, date_from flt, date_to flt) of
                              (Some d, Some f, Some t) \<Rightarrow> f \<le> d \<and> d \<le> t
                            | _ \<Rightarrow> False)" by simp
  qed
  then have "fst (kpi db flt ids pids) = length pids"
    by (simp add: kpi_def kpi_new_count)
  then show ?thesis
    by (simp add: export_atelier_def Let_def make_row_def ids_def pids_def pid_set_def
          List.map_filter_def)
qed

text \<open>
  Claim C5, on the example. Yvon came to atelier A in 2023 and in 2024. For the year 2024
  the loop counts Yvon as new and not as recurring, so the summary row of A shows 2 new and
  1 recurring participant; over the whole history Yvon has two presences, the first one
  outside the period.
\<close>

theorem new_and_recurring_read_the_period_only:
  "kpi ex_db (ex_flt None) [1, 2] [2] = (1, 0) \<and>
   spec_recurring ex_db ex_atelier_a 2 \<and>
   \<not> spec_new ex_db (ex_flt None) ex_atelier_a 2 \<and>
   fst (export_atelier ex_db (ex_flt None) ex_atelier_a) = make_row ex_atelier_a 2 3 2 2 1"
  by code_simp

section \<open>The size caps of the export\<close>

text \<open>What \<open>int\<close> answers on some strings, as Python 3.11 does.\<close>

lemma py_int_examples:
  "py_int '' 12 '' = Inr 12"
  "py_int [CHR 0x09, CHR ''1'', CHR ''2'', CHR 0x0A] = Inr 12"
  "py_int [CHR ''1'', CHR ''2'', CHR 0x85] = Inr 12"
  "py_int [CHR 0xA0, CHR ''1'', CHR ''2''] = Inr 12"
  "py_int [CHR ''1'', CHR ''2'', CHR 0x1F] = Inl ValueError"
  "py_int [CHR 0x1C, CHR ''3'', CHR ''0'', CHR ''0''] = Inl ValueError"
  "py_int ''1_0'' = Inr 10"
  "py_int ''1__0'' = Inl ValueError"
  "py_int ''_1'' = Inl ValueError"
  "py_int ''1_'' = Inl ValueError"
  "py_int ''+5'' = Inr 5"
  "py_int ''-5'' = Inr (- 5)"
  "py_int ''- 5'' = Inl ValueError"
  "py_int ''+-5'' = Inl ValueError"
  "py_int [] = Inl ValueError"
  "py_int ''  '' = Inl ValueError"
  "py_int ''0x10'' = Inl ValueError"
  "py_int ''1.5'' = Inl ValueError"
  "py_int ''1e3'' = Inl ValueError"
  "py_int ''007'' = Inr 7"
  "py_int ''abc'' = Inl ValueError"
  by code_simp+

lemma dropWhile_keeps: "x \<in> set xs \<Longrightarrow> \<not> P x \<Longrightarrow> x \<in> set (dropWhile P xs)"
  by (induction xs) auto

lemma int_strip_keeps: "c \<in> set s \<Longrightarrow> \<not> int_space c \<Longrightarrow> c \<in> set (int_strip s)"
  by (simp add: int_strip_def dropWhile_keeps)

lemma literal_body_chars: "literal_body cs \<Longrightarrow> c \<in> set cs \<Longrightarrow> isdigit c \<or> c = CHR ''_''"
  by (induction cs rule: literal_body.induct) (auto split: if_splits)

text \<open>
  A string with a character that is neither a digit, a sign, an underscore nor white space
  for \<open>int\<close> is refused.
\<close>

lemma py_int_refuses:
  assumes "c \<in> set s" and "\<not> isdigit c" and "c \<notin> set ''+-_''" and "\<not> int_space c"
  shows "py_int s = Inl ValueError"
proof -
  define t where "t = int_strip s"
  define body where
    "body = (if t \<noteq> [] \<and> (hd t = CHR ''-'' \<or> hd t = CHR ''+'') then tl t else t)"
  from assms(1,4) have ct: "c \<in> set t" by (simp add: t_def int_strip_keeps)
  have "c \<in> set body"
  proof (cases "t \<noteq> [] \<and> (hd t = CHR ''-'' \<or> hd t = CHR ''+'')")
    case True
    with ct assms(3) have "c \<in> set (tl t)" by (cases t) auto
    with True show ?thesis by (simp add: body_def)
  next
    case False
    with ct show ?thesis by (auto simp: body_def)
  qed
  with assms(2,3) have "\<not> literal_body body"
    using literal_body_chars [of body c] by auto
  then show ?thesis
    by (simp add: py_int_def Let_def t_def [symmetric] body_def [symmetric])
qed

text \<open>
  Claim C6. Whatever the raw arguments, the export computes with \<open>max_sessions\<close> between 5
  and 400 and \<open>max_participants\<close> between 20 and 5000. An argument that is absent or empty,
  or on which \<open>int\<close> raises, gives the default 40, respectively 250; \<open>int\<close> raises in
  particular on every string with a character that is neither a digit, a sign, an underscore
  nor white space. An argument that \<open>int\<close> reads is clamped. The functions are total: the
  handler returns the default, nothing is raised further.
\<close>

theorem export_caps_clamped:
  "5 \<le> export_max_sessions args \<and> export_max_sessions args \<le> 400 \<and>
   20 \<le> export_max_participants args \<and> export_max_participants args \<le> 5000 \<and>
   (\<forall>s e. args ''max_sessions'' = Some s \<and> py_int s = Inl e \<longrightarrow> export_max_sessions args = 40) \<and>
   (\<forall>s e. args ''max_participants'' = Some s \<and> py_int s = Inl e
      \<longrightarrow> export_max_participants args = 250) \<and>
   (args ''max_sessions'' = None \<or> args ''max_sessions'' = Some []
      \<longrightarrow> export_max_sessions args = 40) \<and>
   (args ''max_participants'' = None \<or> args ''max_participants'' = Some []
      \<longrightarrow> export_max_participants args = 250) \<and>
   (\<forall>s c. args ''max_sessions'' = Some s \<and> c \<in> set s \<and> \<not> isdigit c \<and> c \<notin> set ''+-_'' \<and>
          \<not> int_space c \<longrightarrow> export_max_sessions args = 40) \<and>
   (\<forall>s c. args ''max_participants'' = Some s \<and> c \<in> set s \<and> \<not> isdigit c \<and> c \<notin> set ''+-_'' \<and>
          \<not> int_space c \<longrightarrow> export_max_participants args = 250) \<and>
   (\<forall>s v. args ''max_sessions'' = Some s \<and> s \<noteq> [] \<and> py_int s = Inr v
      \<longrightarrow> export_max_sessions args = max 5 (min v 400)) \<and>
   (\<forall>s v. args ''max_participants'' = Some s \<and> s \<noteq> [] \<and> py_int s = Inr v
      \<longrightarrow> export_max_participants args = max 20 (min v 5000))"
proof -
  have a: "int_arg args key dflt = dflt" if "args key = Some s" "py_int s = Inl e" for key dflt s e
    using that by (simp add: int_arg_def)
  have b: "int_arg args key dflt = dflt" if "args key = None \<or> args key = Some []" for key dflt
    using that by (auto simp: int_arg_def)
  have c: "int_arg args key dflt = dflt"
    if "args key = Some s" "c \<in> set s" "\<not> isdigit c" "c \<notin> set ''+-_''" "\<not> int_space c"
    for key dflt s c
    using a [OF that(1) py_int_refuses [OF that(2-5)]] .
  have d: "int_arg args key dflt = v" if "args key = Some s" "s \<noteq> []" "py_int s = Inr v"
    for key dflt s v
    using that by (simp add: int_arg_def)
  have 1: "5 \<le> export_max_sessions args \<and> export_max_sessions args \<le> 400 \<and>
           20 \<le> export_max_participants args \<and> export_max_participants args \<le> 5000"
    by (simp add: export_max_sessions_def export_max_participants_def)
  have 2: "export_max_sessions args = 40" if "args ''max_sessions'' = Some s" "py_int s = Inl e"
    for s e
    by (simp add: export_max_sessions_def a [OF that])
  have 3: "export_max_participants args = 250"
    if "args ''max_participants'' = Some s" "py_int s = Inl e" for s e
    by (simp add: export_max_participants_def a [OF that])
  have 4: "export_max_sessions args = 40"
    if "args ''max_sessions'' = None \<or> args ''max_sessions'' = Some []"
    by (simp add: export_max_sessions_def b [OF that])
  have 5: "export_max_participants args = 250"
    if "args ''max_participants'' = None \<or> args ''max_participants'' = Some []"
    by (simp add: export_max_participants_def b [OF that])
  have 6: "export_max_sessions args = 40"
    if "args ''max_sessions'' = Some s" "c \<in> set s" "\<not> isdigit c" "c \<notin> set ''+-_''"
       "\<not> int_space c" for s c
    by (simp add: export_max_sessions_def c [OF that])
  have 7: "export_max_participants args = 250"
    if "args ''max_participants'' = Some s" "c \<in> set s" "\<not> isdigit c" "c \<notin> set ''+-_''"
       "\<not> int_space c" for s c
    by (simp add: export_max_participants_def c [OF that])
  have 8: "export_max_sessions args = max 5 (min v 400)"
    if "args ''max_sessions'' = Some s" "s \<noteq> []" "py_int s = Inr v" for s v
    by (simp add: export_max_sessions_def d [OF that])
  have 9: "export_max_participants args = max 20 (min v 5000)"
    if "args ''max_participants'' = Some s" "s \<noteq> []" "py_int s = Inr v" for s v
    by (simp add: export_max_participants_def d [OF that])
  from 1 2 3 4 5 6 7 8 9 show ?thesis by blast
qed

theorem export_caps_clamped_witness:
  "ex_args ''max_sessions'' = Some [CHR ''1'', CHR ''2'', CHR 0x1F] \<and>
   py_int [CHR ''1'', CHR ''2'', CHR 0x1F] = Inl ValueError \<and>
   export_max_sessions ex_args = 40 \<and> export_max_participants ex_args = 5000"
proof -
  have h: "ex_args ''max_sessions'' = Some [CHR ''1'', CHR ''2'', CHR 0x1F] \<and>
           py_int [CHR ''1'', CHR ''2'', CHR 0x1F] = Inl ValueError"
    by code_simp
  have k: "ex_args ''max_participants'' = Some ''99999'' \<and> ''99999'' \<noteq> [] \<and>
           py_int ''99999'' = Inr 99999"
    by code_simp
  note t = export_caps_clamped [of ex_args]
  from t h have 1: "export_max_sessions ex_args = 40" by blast
  from t k have "export_max_participants ex_args = max 20 (min 99999 5000)" by blast
  then have 2: "export_max_participants ex_args = 5000" by simp
  from h 1 2 show ?thesis by blast
qed

section \<open>The default period of the dashboard\<close>

text \<open>
  Claim C9. When the normalized filter has neither \<open>date_from\<close> nor \<open>date_to\<close>, the engine
  is called with the filter whose period runs from January 1 to December 31 of the year of
  today.
\<close>

theorem dashboard_defaults_to_current_year:
  "date_from flt = None \<Longrightarrow> date_to flt = None \<Longrightarrow>
   dashboard_stats compute today flt =
     compute (flt\<lparr>date_from := Some (year today, 1, 1), date_to := Some (year today, 12, 31)\<rparr>)"
  by (simp add: dashboard_stats_def dashboard_flt_def)

theorem dashboard_defaults_to_current_year_witness:
  "dashboard_stats (\<lambda>f. (date_from f, date_to f)) (2026, 11, 4) ex_flt_undated
     = (Some (2026, 1, 1), Some (2026, 12, 31))"
proof -
  have 1: "date_from ex_flt_undated = None" by (simp add: ex_flt_undated_def)
  have 2: "date_to ex_flt_undated = None" by (simp add: ex_flt_undated_def)
  from dashboard_defaults_to_current_year [OF 1 2, of "\<lambda>f. (date_from f, date_to f)" "(2026, 11, 4)"]
  show ?thesis by (simp add: year_def)
qed

section \<open>The sector check of the deletion\<close>

text \<open>
  The set that the code compares holds the non-empty sectors recorded on the sessions of the
  participant's presences.
\<close>

lemma sectors_of_sessions: "sectors_of db pid = session_sectors db pid"
proof (rule set_eqI)
  fix sec
  show "sec \<in> sectors_of db pid \<longleftrightarrow> sec \<in> session_sectors db pid"
  proof
    assume "sec \<in> sectors_of db pid"
    then obtain x where x: "x \<in> set (presence_sectors db pid)" "truthy x" "sec = or_empty x"
      by (auto simp: sectors_of_def)
    then have "x = Some sec" "sec \<noteq> []"
      by (auto simp: truthy_def or_empty_def split: option.splits)
    with x(1) show "sec \<in> session_sectors db pid"
      by (fastforce simp: presence_sectors_def session_sectors_def)
  next
    assume "sec \<in> session_sectors db pid"
    then obtain pr s where "sec \<noteq> []" "pr \<in> set (presences db)" "s \<in> set (sessions db)"
      "pr_participant_id pr = Some pid" "pr_session_id pr = Some (s_id s)" "s_secteur s = Some sec"
      by (auto simp: session_sectors_def)
    then have "Some sec \<in> set (presence_sectors db pid)" "truthy (Some sec)"
      by (auto simp: presence_sectors_def truthy_def intro!: rev_image_eqI)
    then have "Some sec \<in> set (filter truthy (presence_sectors db pid))" by simp
    then have "or_empty (Some sec) \<in> or_empty ` set (filter truthy (presence_sectors db pid))"
      by (rule imageI)
    then show "sec \<in> sectors_of db pid" by (simp add: or_empty_def sectors_of_def)
  qed
qed

text \<open>
  A participant id followed by the separator U+001F is not read by \<open>int\<close>: the id is 0 and
  the request is aborted, nothing is deleted.
\<close>

lemma separator_in_participant_id:
  "form_participant_id (ex_form [CHR ''3'', CHR 0x1F]) = 0"
  "fst (delete_participant (ex_user (Some ''Nord'')) [1, 2, 3] True
          (ex_form [CHR ''3'', CHR 0x1F]) ex_state) = Abort 403"
  "map pa_id (participants (st_db (snd (delete_participant (ex_user (Some ''Nord'')) [1, 2, 3] True
                                          (ex_form [CHR ''3'', CHR 0x1F]) ex_state)))) = [1, 2, 3]"
  by code_simp+




text \<open>
  Claim C10. For a caller without \<open>participants:view_all\<close> who acts on a participant among
  those the caller sees, the sessions whose sector is \<open>NULL\<close> or empty do not count in the
  sector check. The set that is compared holds only the non-empty sectors recorded on the
  sessions. A participant whose presences are all in sessions without sector or of the
  caller's sector is purged; a presence in a session of another non-empty sector makes the
  deletion refused. In particular a participant whose presences are all in sessions without
  sector has an empty set, as with no presence, and is purged whatever the caller's sector:
  when the transaction commits, the participant and the presences are gone.
\<close>

theorem sectorless_presences_allow_delete:
  assumes "\<not> can u ''participants:view_all''" and "can_view u"
    and "form_participant_id form = pid" and "pid \<noteq> 0" and "pid \<in> set allowed_ids"
    and "p \<in> set (participants (st_db st))" and "pa_id p = pid"
  shows "sectors_of (st_db st) pid = session_sectors (st_db st) pid \<and>
         ((\<forall>pr\<in>set (presences (st_db st)). \<forall>s\<in>set (sessions (st_db st)).
             pr_participant_id pr = Some pid \<and> pr_session_id pr = Some (s_id s)
               \<longrightarrow> s_secteur s = None \<or> s_secteur s = Some [] \<or>
                   s_secteur s = Some (strip (or_empty (secteur_assigne u))))
            \<longrightarrow> delete_participant u allowed_ids commit_ok form st = purge commit_ok pid st) \<and>
         ((\<exists>pr\<in>set (presences (st_db st)). \<exists>s\<in>set (sessions (st_db st)). \<exists>sec.
             pr_participant_id pr = Some pid \<and> pr_session_id pr = Some (s_id s) \<and>
             s_secteur s = Some sec \<and> sec \<noteq> [] \<and> sec \<noteq> strip (or_empty (secteur_assigne u)))
            \<longrightarrow> delete_participant u allowed_ids commit_ok form st
                  = (Redirect Suppression_refusee, st)) \<and>
         ((\<forall>pr\<in>set (presences (st_db st)). \<forall>s\<in>set (sessions (st_db st)).
             pr_participant_id pr = Some pid \<and> pr_session_id pr = Some (s_id s)
               \<longrightarrow> s_secteur s = None \<or> s_secteur s = Some [])
            \<longrightarrow> sectors_of (st_db st) pid = {} \<and>
                delete_participant u allowed_ids commit_ok form st = purge commit_ok pid st \<and>
                (commit_ok \<longrightarrow>
                   fst (delete_participant u allowed_ids commit_ok form st)
                     = Redirect Participant_supprime \<and>
                   (\<forall>q\<in>set (participants
                               (st_db (snd (delete_participant u allowed_ids commit_ok form st)))).
                      pa_id q \<noteq> pid) \<and>
                   (\<forall>pr\<in>set (presences
                                (st_db (snd (delete_participant u allowed_ids commit_ok form st)))).
                      pr_participant_id pr \<noteq> Some pid)))"
proof -
  define own where "own = strip (or_empty (secteur_assigne u))"
  define secs where "secs = session_sectors (st_db st) pid"
  have so: "sectors_of (st_db st) pid = secs"
    by (simp add: secs_def sectors_of_sessions)
  obtain q where q: "find (\<lambda>p. pa_id p = pid) (participants (st_db st)) = Some q"
    using assms(6,7) by (cases "find (\<lambda>p. pa_id p = pid) (participants (st_db st))")
      (auto simp: find_None_iff)
  have del: "delete_participant u allowed_ids commit_ok form st =
               (if secs \<noteq> {} \<and> secs \<noteq> {own} then (Redirect Suppression_refusee, st)
                else purge commit_ok pid st)"
    using assms(1-5) q by (simp add: delete_participant_def Let_def so user_secteur_def own_def)
  have mixed: "delete_participant u allowed_ids commit_ok form st = purge commit_ok pid st"
    if "\<forall>pr\<in>set (presences (st_db st)). \<forall>s\<in>set (sessions (st_db st)).
          pr_participant_id pr = Some pid \<and> pr_session_id pr = Some (s_id s)
            \<longrightarrow> s_secteur s = None \<or> s_secteur s = Some [] \<or> s_secteur s = Some own"
  proof -
    from that have "secs \<subseteq> {own}"
      by (fastforce simp: secs_def session_sectors_def)
    then have "secs = {} \<or> secs = {own}" by blast
    then show ?thesis by (auto simp: del)
  qed
  have other: "delete_participant u allowed_ids commit_ok form st = (Redirect Suppression_refusee, st)"
    if "\<exists>pr\<in>set (presences (st_db st)). \<exists>s\<in>set (sessions (st_db st)). \<exists>sec.
          pr_participant_id pr = Some pid \<and> pr_session_id pr = Some (s_id s) \<and>
          s_secteur s = Some sec \<and> sec \<noteq> [] \<and> sec \<noteq> own"
  proof -
    from that obtain sec where "sec \<in> secs" "sec \<noteq> own"
      by (auto simp: secs_def session_sectors_def)
    then have "secs \<noteq> {} \<and> secs \<noteq> {own}" by blast
    then show ?thesis by (simp add: del)
  qed
  have none: "sectors_of (st_db st) pid = {} \<and>
              delete_participant u allowed_ids commit_ok form st = purge commit_ok pid st \<and>
              (commit_ok \<longrightarrow>
                 fst (delete_participant u allowed_ids commit_ok form st)
                   = Redirect Participant_supprime \<and>
                 (\<forall>q\<in>set (participants
                             (st_db (snd (delete_participant u allowed_ids commit_ok form st)))).
                    pa_id q \<noteq> pid) \<and>
                 (\<forall>pr\<in>set (presences
                              (st_db (snd (delete_participant u allowed_ids commit_ok form st)))).
                    pr_participant_id pr \<noteq> Some pid))"
    if "\<forall>pr\<in>set (presences (st_db st)). \<forall>s\<in>set (sessions (st_db st)).
          pr_participant_id pr = Some pid \<and> pr_session_id pr = Some (s_id s)
            \<longrightarrow> s_secteur s = None \<or> s_secteur s = Some []"
  proof -
    from that have e: "secs = {}"
      by (fastforce simp: secs_def session_sectors_def)
    then have d: "delete_participant u allowed_ids commit_ok form st = purge commit_ok pid st"
      by (simp add: del)
    show ?thesis
      unfolding d using e so by (auto simp: purge_def Let_def)
  qed
  from so mixed other none show ?thesis
    unfolding own_def secs_def by blast
qed

theorem sectorless_presences_allow_delete_witness:
  "sectors_of (st_db ex_state) 3 = {} \<and>
   fst (delete_participant (ex_user (Some ''Nord'')) [1, 2, 3] True (ex_form ''3'') ex_state)
     = Redirect Participant_supprime \<and>
   map pa_id (participants (st_db (snd (delete_participant (ex_user (Some ''Nord'')) [1, 2, 3] True
                                          (ex_form ''3'') ex_state)))) = [1, 2]"
proof -
  have 1: "\<not> can (ex_user (Some ''Nord'')) ''participants:view_all''"
    by (simp add: ex_user_def)
  have v: "can_view (ex_user (Some ''Nord''))" by (simp add: can_view_def ex_user_def)
  have 2: "form_participant_id (ex_form ''3'') = 3" by code_simp
  have 3: "(3::int) \<noteq> 0" by simp
  have 4: "(3::int) \<in> set [1, 2, 3]" by simp
  have 5: "\<lparr>pa_id = 3, pa_nom = Some ''Zoe'', pa_prenom = None\<rparr>
             \<in> set (participants (st_db ex_state))"
    by (simp add: ex_state_def ex_db_def)
  have 6: "pa_id \<lparr>pa_id = 3, pa_nom = Some ''Zoe'', pa_prenom = None\<rparr> = 3" by simp
  have 7: "\<forall>pr\<in>set (presences (st_db ex_state)). \<forall>s\<in>set (sessions (st_db ex_state)).
             pr_participant_id pr = Some 3 \<and> pr_session_id pr = Some (s_id s)
               \<longrightarrow> s_secteur s = None \<or> s_secteur s = Some []"
    by code_simp
  have 8: "map pa_id (participants (st_db (snd (purge True 3 ex_state)))) = [1, 2]"
    by code_simp
  note t = sectorless_presences_allow_delete [OF 1 v 2 3 4 5 6, of True]
  from t 7 have a: "sectors_of (st_db ex_state) 3 = {}" by blast
  from t 7 have b: "fst (delete_participant (ex_user (Some ''Nord'')) [1, 2, 3] True (ex_form ''3'')
                           ex_state) = Redirect Participant_supprime"
    by blast
  from t 7 have c: "delete_participant (ex_user (Some ''Nord'')) [1, 2, 3] True (ex_form ''3'')
                      ex_state = purge True 3 ex_state"
    by blast
  have d: "map pa_id (participants (st_db (snd (delete_participant (ex_user (Some ''Nord''))
                                                   [1, 2, 3] True (ex_form ''3'') ex_state))))
             = [1, 2]"
    unfolding c by (rule 8)
  from a b d show ?thesis by blast
qed

section \<open>Objective roll-up\<close>

text \<open>
  When the competencies are distinct and no validation is recorded twice, the number of
  validated evaluation rows equals the number of competencies exactly when each competency
  has a validated evaluation.
\<close>

lemma evals_count_all:
  assumes u: "one_validation_each db" and d: "distinct comp_ids"
  shows "evals_count db sid comp_ids pid = length comp_ids \<longleftrightarrow> validated_all db sid comp_ids pid"
proof -
  define S where
    "S = {e \<in> set (evaluations db). validation db sid pid e \<and> e_competence_id e \<in> set comp_ids}"
  have cnt: "evals_count db sid comp_ids pid = card S"
    unfolding evals_count_def S_def validation_def length_remdups_card_conv
    by (rule arg_cong [where f = card]) auto
  have inj: "inj_on e_competence_id S"
  proof (rule inj_onI)
    fix a b assume "a \<in> S" "b \<in> S" "e_competence_id a = e_competence_id b"
    with u show "a = b"
      unfolding one_validation_each_def S_def validation_def list_all_iff
      by (metis (mono_tags, lifting) mem_Collect_eq)
  qed
  have sub: "e_competence_id ` S \<subseteq> set comp_ids" by (auto simp: S_def)
  have "card S = card (e_competence_id ` S)" using inj by (simp add: card_image)
  moreover have "length comp_ids = card (set comp_ids)" using d by (simp add: distinct_card)
  ultimately have "evals_count db sid comp_ids pid = length comp_ids
                     \<longleftrightarrow> card (e_competence_id ` S) = card (set comp_ids)"
    using cnt by simp
  also have "\<dots> \<longleftrightarrow> e_competence_id ` S = set comp_ids"
    using sub by (metis List.finite_set card_subset_eq)
  also have "\<dots> \<longleftrightarrow> validated_all db sid comp_ids pid"
    unfolding validated_all_def list_all_iff list_ex_iff S_def by force
  finally show ?thesis .
qed

lemma objective_success_op:
  "op_session (o_type obj) (o_session_id obj) = Some sid \<Longrightarrow>
   objective_success db obj =
     (let stats = participants_success_rate db sid (o_competences obj)
      in \<lparr>ratio = rt_ratio stats, validated = (rt_ratio stats \<ge> seuil (o_seuil_validation obj)),
          total = rt_total stats, success = rt_success stats\<rparr>)"
  by (cases obj) simp

lemma objective_success_composite:
  "op_session (o_type obj) (o_session_id obj) = None \<Longrightarrow>
   objective_success db obj =
     (if o_enfants obj = [] then \<lparr>ratio = 0, validated = False, total = 0, success = 0\<rparr>
      else
        (let results = map (objective_success db) (o_enfants obj);
             total = length results;
             success = length (filter validated results);
             ratio = (if total \<noteq> 0 then float_mul (true_div success total) 100 else 0)
         in \<lparr>ratio = ratio, validated = (ratio \<ge> seuil (o_seuil_validation obj)), total = total,
             success = success\<rparr>))"
  by (cases obj) simp

lemma half_of_hundred: "float_mul (true_div 1 2) 100 = 50"
  by code_simp

text \<open>29 / 50 * 100 in floats, as Python prints it: 57.99999999999999.\<close>

lemma float_29_of_50:
  "float_mul (true_div 29 50) 100 = 8162774324609023 / 140737488355328"
  by code_simp

text \<open>
  Claim C3, as amended. For an objective of type \<open>operationnel\<close> with a session, whose
  competencies are distinct, in a source where no validation is recorded twice: with at least
  one competency, total is the number of presences of the session and success the number of
  these presences (a participant recorded twice counts twice) whose participant has a
  validated evaluation (state 2 or more) for every competency; without any competency, total
  and success are 0. In both cases ratio is 0 when total is 0 and otherwise the float that
  Python computes for success / total * 100, and validated says that ratio reaches the
  threshold, so that a total of 0 gives ratio 0 and validated = (0 >= threshold).
\<close>

theorem operational_objective_success:
  assumes op: "op_session (o_type obj) (o_session_id obj) = Some sid"
    and u: "one_validation_each db"
    and d: "distinct (map c_id (o_competences obj))"
  shows "let r = objective_success db obj;
             prs = filter (\<lambda>pr. pr_session_id pr = Some sid) (presences db);
             comp_ids = map c_id (o_competences obj)
         in (if comp_ids = [] then total r = 0 \<and> success r = 0
             else total r = length prs \<and>
                  success r =
                    length (filter (\<lambda>pr. validated_all db sid comp_ids (pr_participant_id pr)) prs)) \<and>
            ratio r = (if total r = 0 then 0 else float_mul (true_div (success r) (total r)) 100) \<and>
            validated r = (ratio r \<ge> seuil (o_seuil_validation obj)) \<and>
            (total r = 0 \<longrightarrow> ratio r = 0 \<and> validated r = (0 \<ge> seuil (o_seuil_validation obj)))"
proof -
  have eq: "(evals_count db sid (map c_id (o_competences obj)) (pr_participant_id pr)
               = length (o_competences obj))
            = validated_all db sid (map c_id (o_competences obj)) (pr_participant_id pr)" for pr
    using evals_count_all [OF u d, of sid "pr_participant_id pr"] by simp
  show ?thesis
    by (auto simp: objective_success_op [OF op] participants_success_rate_def Let_def eq
          filter_empty_conv)
qed

theorem operational_objective_success_witness:
  "op_session (o_type ex_operationnel) (o_session_id ex_operationnel) = Some 1 \<and>
   one_validation_each ex_db \<and>
   total (objective_success ex_db ex_operationnel) = 2 \<and>
   success (objective_success ex_db ex_operationnel) = 1 \<and>
   ratio (objective_success ex_db ex_operationnel) = 50 \<and>
   validated (objective_success ex_db ex_operationnel)"
proof -
  have 1: "op_session (o_type ex_operationnel) (o_session_id ex_operationnel) = Some 1"
    by code_simp
  have 2: "one_validation_each ex_db" by code_simp
  have 3: "distinct (map c_id (o_competences ex_operationnel))" by code_simp
  have 4: "map c_id (o_competences ex_operationnel) \<noteq> []" by code_simp
  have 5: "length (filter (\<lambda>pr. pr_session_id pr = Some 1) (presences ex_db)) = 2" by code_simp
  have 6: "length (filter (\<lambda>pr. validated_all ex_db 1 (map c_id (o_competences ex_operationnel))
                                  (pr_participant_id pr))
                     (filter (\<lambda>pr. pr_session_id pr = Some 1) (presences ex_db))) = 1"
    by code_simp
  have 7: "seuil (o_seuil_validation ex_operationnel) = 50" by code_simp
  have 8: "(2::nat) \<noteq> 0" by simp
  note t = operational_objective_success [OF 1 2 3, unfolded Let_def]
  from t 4 have tot: "total (objective_success ex_db ex_operationnel) = 2"
    by (simp only: if_False 5)
  from t 4 have suc: "success (objective_success ex_db ex_operationnel) = 1"
    by (simp only: if_False 6)
  from t have "ratio (objective_success ex_db ex_operationnel) =
                 (if total (objective_success ex_db ex_operationnel) = 0 then 0
                  else float_mul (true_div (success (objective_success ex_db ex_operationnel))
                                           (total (objective_success ex_db ex_operationnel))) 100)"
    by blast
  then have rat: "ratio (objective_success ex_db ex_operationnel) = 50"
    using 8 by (simp only: tot suc if_False half_of_hundred)
  from t have "validated (objective_success ex_db ex_operationnel) =
                 (ratio (objective_success ex_db ex_operationnel)
                    \<ge> seuil (o_seuil_validation ex_operationnel))"
    by blast
  then have "validated (objective_success ex_db ex_operationnel)"
    by (simp add: rat 7)
  with 1 2 tot suc rat show ?thesis by blast
qed

text \<open>
  Four inputs on which the claim as stated fails. Without competencies the objective reports
  a total of 0 although its session has two presences. When Yvon's validation of competency
  10 is recorded twice, Yvon counts as a success although nobody has validated competency 11.
  When Xavier's presence is recorded twice, success is 2 although Xavier is the only
  participant who validated both competencies. With 29 successes out of 50 the ratio is the
  float 57.99999999999999 and not 58, so the threshold 58 is not reached.
\<close>

theorem operational_objective_counterexample:
  "op_session (o_type ex_sans_competence) (o_session_id ex_sans_competence) = Some 1 \<and>
   total (objective_success ex_db ex_sans_competence) = 0 \<and>
   length (filter (\<lambda>pr. pr_session_id pr = Some 1) (presences ex_db)) = 2 \<and>
   op_session (o_type ex_operationnel) (o_session_id ex_operationnel) = Some 1 \<and>
   success (objective_success ex_db_twice ex_operationnel) = 1 \<and>
   validated_participants ex_db_twice 1 [10, 11] = [] \<and>
   success (objective_success ex_db_double ex_operationnel) = 2 \<and>
   validated_participants ex_db_double 1 [10, 11] = [Some 1] \<and>
   op_session (o_type ex_seuil_58) (o_session_id ex_seuil_58) = Some 1 \<and>
   total (objective_success ex_db_fifty ex_seuil_58) = 50 \<and>
   success (objective_success ex_db_fifty ex_seuil_58) = 29 \<and>
   (29 / 50 * 100 :: rat) = 58 \<and>
   ratio (objective_success ex_db_fifty ex_seuil_58) = 8162774324609023 / 140737488355328 \<and>
   ratio (objective_success ex_db_fifty ex_seuil_58) < 58 \<and>
   seuil (o_seuil_validation ex_seuil_58) = 58 \<and>
   \<not> validated (objective_success ex_db_fifty ex_seuil_58)"
  by code_simp

text \<open>
  Claim C4, as amended. For an objective that does not take the operational branch, total
  is the number of children and success the number of children whose result is validated;
  with at least one child ratio is the float that Python computes for success / total * 100
  and validated says that ratio reaches the threshold; without children ratio is 0 and
  validated is false.
\<close>

theorem composite_objective_success:
  assumes "op_session (o_type obj) (o_session_id obj) = None"
  shows "let r = objective_success db obj; kids = o_enfants obj
         in total r = length kids \<and>
            success r = length (filter (\<lambda>c. validated (objective_success db c)) kids) \<and>
            ratio r = (if kids = [] then 0 else float_mul (true_div (success r) (total r)) 100) \<and>
            validated r = (kids \<noteq> [] \<and> ratio r \<ge> seuil (o_seuil_validation obj))"
  by (simp add: objective_success_composite [OF assms] Let_def filter_map comp_def)

theorem composite_objective_success_witness:
  "op_session (o_type ex_specifique) (o_session_id ex_specifique) = None \<and>
   total (objective_success ex_db ex_specifique) = 2 \<and>
   success (objective_success ex_db ex_specifique) = 1 \<and>
   ratio (objective_success ex_db ex_specifique) = 50 \<and>
   validated (objective_success ex_db ex_specifique)"
proof -
  have 1: "op_session (o_type ex_specifique) (o_session_id ex_specifique) = None"
    by code_simp
  have 2: "o_enfants ex_specifique = [ex_operationnel, ex_sans_competence]"
    by (simp add: ex_specifique_def)
  have 3: "length (filter (\<lambda>c. validated (objective_success ex_db c))
                     [ex_operationnel, ex_sans_competence]) = 1"
    by code_simp
  have 4: "[ex_operationnel, ex_sans_competence] \<noteq> []" by simp
  have 5: "seuil (o_seuil_validation ex_specifique) = 50" by code_simp
  have 6: "length [ex_operationnel, ex_sans_competence] = 2" by simp
  note t = composite_objective_success [OF 1, of ex_db, unfolded Let_def 2]
  from t have tot: "total (objective_success ex_db ex_specifique) = 2"
    by (simp only: 6)
  from t have suc: "success (objective_success ex_db ex_specifique) = 1"
    by (simp only: 3)
  from t 4 have rat: "ratio (objective_success ex_db ex_specifique) = 50"
    by (simp only: if_False tot suc half_of_hundred)
  from t 4 have "validated (objective_success ex_db ex_specifique) =
                   (ratio (objective_success ex_db ex_specifique)
                      \<ge> seuil (o_seuil_validation ex_specifique))"
    by (simp only: simp_thms)
  then have "validated (objective_success ex_db ex_specifique)"
    by (simp add: rat 5)
  with 1 tot suc rat show ?thesis by blast
qed

text \<open>
  Two inputs on which the claim as stated fails. An objective without children and without
  threshold is not validated, although 0 reaches the threshold 0. With 29 validated children
  out of 50 the ratio is the float 57.99999999999999 and not 58, so the threshold 58 is not
  reached.
\<close>

theorem childless_objective_counterexample:
  "op_session (o_type ex_sans_enfant) (o_session_id ex_sans_enfant) = None \<and>
   o_enfants ex_sans_enfant = [] \<and>
   ratio (objective_success ex_db ex_sans_enfant) = 0 \<and>
   seuil (o_seuil_validation ex_sans_enfant) \<le> 0 \<and>
   \<not> validated (objective_success ex_db ex_sans_enfant) \<and>
   op_session (o_type ex_cinquante) (o_session_id ex_cinquante) = None \<and>
   total (objective_success ex_db ex_cinquante) = 50 \<and>
   success (objective_success ex_db ex_cinquante) = 29 \<and>
   (29 / 50 * 100 :: rat) = 58 \<and>
   ratio (objective_success ex_db ex_cinquante) = 8162774324609023 / 140737488355328 \<and>
   ratio (objective_success ex_db ex_cinquante) < 58 \<and>
   seuil (o_seuil_validation ex_cinquante) = 58 \<and>
   \<not> validated (objective_success ex_db ex_cinquante)"
  by code_simp

end
